theory Spec2Isabelle
  imports Complex_Main "HOL-Library.Word"
begin

unbundle bit_operations_syntax

section \<open>The APL runtime (src/src/apl-runtime.js)\<close>

subsection \<open>JavaScript values\<close>

text \<open>
  A JavaScript number is a double of IEEE 754: a finite value, which is a real, or one of the
  three special values. The sign of zero is not modelled. Every real may stand in \<open>Fin\<close>;
  the doubles are the reals that \<open>round_double\<close> leaves unchanged, and the arithmetic
  below rounds every finite result to a double.
\<close>

datatype jsnum = Fin real | PInf | NInf | NaN

text \<open>
  Rounding of a real to the nearest double, ties to the even significand. The doubles
  around \<open>x\<close> are the integer multiples of \<open>double_ulp x\<close>: with \<open>e\<close> the binary exponent of
  \<open>x\<close> (at least -1022, below which the doubles are subnormal and evenly spaced), the
  spacing is \<open>2 ^ (e - 52)\<close>. A result that rounds to \<open>2 ^ 1024\<close> or more in magnitude is
  an infinity.
\<close>

definition round_half_even :: "real \<Rightarrow> int" where
  "round_half_even q =
     (if q - of_int \<lfloor>q\<rfloor> < 1 / 2 then \<lfloor>q\<rfloor>
      else if 1 / 2 < q - of_int \<lfloor>q\<rfloor> then \<lfloor>q\<rfloor> + 1
      else if even \<lfloor>q\<rfloor> then \<lfloor>q\<rfloor> else \<lfloor>q\<rfloor> + 1)"

definition double_ulp :: "real \<Rightarrow> real" where
  "double_ulp x = 2 powr (of_int (max \<lfloor>log 2 \<bar>x\<bar>\<rfloor> (- 1022)) - 52)"

definition max_exponent :: nat where
  "max_exponent = 1024"

definition round_double :: "real \<Rightarrow> jsnum" where
  "round_double x =
     (if x = 0 then Fin 0
      else if 2 ^ max_exponent \<le> \<bar>of_int (round_half_even (x / double_ulp x)) * double_ulp x\<bar>
      then (if x < 0 then NInf else PInf)
      else Fin (of_int (round_half_even (x / double_ulp x)) * double_ulp x))"

text \<open>
  The values that reach the evaluation stack, the memory map and the globals. A quantum
  state object is held by reference (\<open>VQState\<close>, with the identity of the object); a
  native function of the globals is opaque (\<open>VNative\<close>).
\<close>

datatype "value" =
    VUndefined
  | VNull
  | VBool bool
  | VNum jsnum
  | VStr string
  | VArray "value list"
  | VQState nat
  | VNative string

text \<open>Truthiness, as \<open>||\<close>, \<open>if (condition)\<close> and \<open>!func\<close> test it.\<close>

fun truthy :: "value \<Rightarrow> bool" where
  "truthy VUndefined = False"
| "truthy VNull = False"
| "truthy (VBool b) = b"
| "truthy (VNum (Fin x)) = (x \<noteq> 0)"
| "truthy (VNum NaN) = False"
| "truthy (VNum PInf) = True"
| "truthy (VNum NInf) = True"
| "truthy (VStr s) = (s \<noteq> [])"
| "truthy (VArray xs) = True"
| "truthy (VQState r) = True"
| "truthy (VNative f) = True"

text \<open>\<open>a || b\<close>\<close>

definition js_or :: "value \<Rightarrow> value \<Rightarrow> value" where
  "js_or a b = (if truthy a then a else b)"

text \<open>
  \<open>ToNumber\<close> on the primitive values whose conversion needs no string parsing; for a
  string or an object the conversion is outside the model (\<open>None\<close>).
\<close>

fun to_number :: "value \<Rightarrow> jsnum option" where
  "to_number VUndefined = Some NaN"
| "to_number VNull = Some (Fin 0)"
| "to_number (VBool b) = Some (Fin (if b then 1 else 0))"
| "to_number (VNum n) = Some n"
| "to_number (VStr s) = None"
| "to_number (VArray xs) = None"
| "to_number (VQState r) = None"
| "to_number (VNative f) = None"

subsection \<open>Arithmetic on numbers\<close>

fun num_add :: "jsnum \<Rightarrow> jsnum \<Rightarrow> jsnum" where
  "num_add NaN y = NaN"
| "num_add x NaN = NaN"
| "num_add PInf NInf = NaN"
| "num_add NInf PInf = NaN"
| "num_add PInf y = PInf"
| "num_add NInf y = NInf"
| "num_add x PInf = PInf"
| "num_add x NInf = NInf"
| "num_add (Fin x) (Fin y) = round_double (x + y)"

fun num_neg :: "jsnum \<Rightarrow> jsnum" where
  "num_neg NaN = NaN"
| "num_neg PInf = NInf"
| "num_neg NInf = PInf"
| "num_neg (Fin x) = Fin (- x)"

definition num_sub :: "jsnum \<Rightarrow> jsnum \<Rightarrow> jsnum" where
  "num_sub x y = num_add x (num_neg y)"

text \<open>The sign of a number: \<open>None\<close> for NaN, otherwise -1, 0 or 1.\<close>

fun num_sign :: "jsnum \<Rightarrow> int option" where
  "num_sign NaN = None"
| "num_sign PInf = Some 1"
| "num_sign NInf = Some (- 1)"
| "num_sign (Fin x) = Some (if x < 0 then - 1 else if x = 0 then 0 else 1)"

definition inf_of_sign :: "int \<Rightarrow> jsnum" where
  "inf_of_sign s = (if s < 0 then NInf else if s = 0 then NaN else PInf)"

fun num_mul :: "jsnum \<Rightarrow> jsnum \<Rightarrow> jsnum" where
  "num_mul (Fin x) (Fin y) = round_double (x * y)"
| "num_mul x y =
     (case (num_sign x, num_sign y) of
        (Some s, Some t) \<Rightarrow> inf_of_sign (s * t)
      | _ \<Rightarrow> NaN)"

text \<open>
  \<open>a / b\<close>. A zero divisor is the positive zero here (\<open>opDiv\<close> throws on a number that is
  zero, so the only zero divisors that reach the division come from \<open>null\<close> and
  \<open>false\<close>). The quotient of two finite numbers is rounded, so it is an infinity when it
  overflows and zero when it underflows.
\<close>

fun num_div :: "jsnum \<Rightarrow> jsnum \<Rightarrow> jsnum" where
  "num_div NaN y = NaN"
| "num_div x NaN = NaN"
| "num_div (Fin x) (Fin y) =
     (if y = 0 then (if x = 0 then NaN else if x < 0 then NInf else PInf)
      else round_double (x / y))"
| "num_div (Fin x) PInf = Fin 0"
| "num_div (Fin x) NInf = Fin 0"
| "num_div PInf (Fin y) = (if y < 0 then NInf else PInf)"
| "num_div NInf (Fin y) = (if y < 0 then PInf else NInf)"
| "num_div x y = NaN"

text \<open>
  The binary operators on values. \<open>+\<close> concatenates when an operand is a string or an
  object; that case, and every conversion of a string or an object to a number, is
  outside the model (\<open>None\<close>).
\<close>

definition js_arith :: "(jsnum \<Rightarrow> jsnum \<Rightarrow> jsnum) \<Rightarrow> value \<Rightarrow> value \<Rightarrow> value option" where
  "js_arith f a b =
     (case (to_number a, to_number b) of
        (Some x, Some y) \<Rightarrow> Some (VNum (f x y))
      | _ \<Rightarrow> None)"

definition js_add :: "value \<Rightarrow> value \<Rightarrow> value option" where
  "js_add = js_arith num_add"

definition js_sub :: "value \<Rightarrow> value \<Rightarrow> value option" where
  "js_sub = js_arith num_sub"

definition js_mul :: "value \<Rightarrow> value \<Rightarrow> value option" where
  "js_mul = js_arith num_mul"

definition js_div :: "value \<Rightarrow> value \<Rightarrow> value option" where
  "js_div = js_arith num_div"

subsection \<open>Errors and results\<close>

text \<open>
  What a handler can throw: a \<open>TypeError\<close> or \<open>RangeError\<close> of the engine, or an
  \<open>Error\<close> with the message the source gives it.
\<close>

datatype error = TypeError | RangeError | Error string

text \<open>
  The result of a helper that does not change the runtime: a value, a thrown error, or
  \<open>NotModelled\<close> where the source's behaviour depends on a conversion that the value
  model leaves out.
\<close>

datatype 'a res = Ok 'a | Err error | NotModelled

subsection \<open>Instructions\<close>

text \<open>The expression nodes that \<open>evalExpression\<close> reads.\<close>

datatype expr =
    Identifier string
  | Literal "value"
  | CallExpression "value" "expr list"
  | OtherExpr

text \<open>
  An instruction, by the opcode that \<open>executeInstruction\<close> dispatches on, with the
  fields its handler reads. \<open>QUANTUM_INIT\<close> carries the \<open>value\<close> fields of
  \<open>instruction.args\<close>; \<open>OTHER\<close> is any opcode that the switch does not list, with its
  text. The handlers of the instructions without fields here are not modelled.
\<close>

datatype instruction =
    MEM_LOAD string
  | MEM_STORE string
  | MEM_ALLOC
  | MEM_FREE
  | PATTERN_MATCH
  | PATTERN_BIND
  | NEURAL_SPIKE
  | NEURAL_LEARN
  | QUANTUM_INIT "value list"
  | QUANTUM_GATE string nat
  | QUANTUM_MEASURE
  | QUANTUM_ENTANGLE
  | JUMP int
  | JUMP_IF int
  | CALL string nat
  | RETURN
  | LOOP string expr
  | PARALLEL
  | ADD
  | SUB
  | MUL
  | DIV
  | FUNC_DECL string "string list" bool
  | PUSH_CONST "value"
  | LOOP_END
  | OTHER string

text \<open>
  The field \<open>opcode\<close> of an instruction: a number or a string. For \<open>OTHER\<close> the text
  stands for an opcode that the switch does not list.
\<close>

datatype opcode = OpNum nat | OpStr string

fun opcode_of :: "instruction \<Rightarrow> opcode" where
  "opcode_of (MEM_LOAD source) = OpNum 0"
| "opcode_of (MEM_STORE target) = OpNum 1"
| "opcode_of MEM_ALLOC = OpNum 2"
| "opcode_of MEM_FREE = OpNum 3"
| "opcode_of PATTERN_MATCH = OpNum 4"
| "opcode_of PATTERN_BIND = OpNum 5"
| "opcode_of NEURAL_SPIKE = OpNum 8"
| "opcode_of NEURAL_LEARN = OpNum 9"
| "opcode_of (QUANTUM_INIT args) = OpNum 12"
| "opcode_of (QUANTUM_GATE gate target) = OpNum 13"
| "opcode_of QUANTUM_MEASURE = OpNum 14"
| "opcode_of QUANTUM_ENTANGLE = OpNum 15"
| "opcode_of (JUMP target) = OpNum 16"
| "opcode_of (JUMP_IF target) = OpNum 17"
| "opcode_of (CALL fname argCount) = OpNum 18"
| "opcode_of RETURN = OpNum 19"
| "opcode_of (LOOP variable iterable) = OpNum 20"
| "opcode_of PARALLEL = OpNum 21"
| "opcode_of ADD = OpNum 24"
| "opcode_of SUB = OpNum 25"
| "opcode_of MUL = OpNum 26"
| "opcode_of DIV = OpNum 27"
| "opcode_of (FUNC_DECL name ps async) = OpStr ''FUNC_DECL''"
| "opcode_of (PUSH_CONST v) = OpStr ''PUSH_CONST''"
| "opcode_of LOOP_END = OpStr ''LOOP_END''"
| "opcode_of (OTHER text) = OpStr text"

subsection \<open>The state of the runtime\<close>

text \<open>
  An amplitude \<open>{real, imag}\<close>. The two parts are reals, and the arithmetic of the gates
  and of the measurement on them is exact: it is not rounded to doubles.
\<close>

record amp =
  amp_real :: real
  amp_imag :: real

text \<open>
  The quantum state object \<open>{numQubits, amplitudes, entangled}\<close>. \<open>qid\<close> is the identity
  of the object: the stack holds \<open>VQState qid\<close> for a reference to it.
\<close>

record qstate =
  qid :: nat
  numQubits :: "value"
  amplitudes :: "amp list"
  entangled :: "(value \<times> value) list"

text \<open>A call-stack frame \<open>{pc, memory}\<close> and a function-table entry.\<close>

datatype frame = Frame (frame_pc: int) (frame_memory: "string \<rightharpoonup> value")

datatype func = Func (params: "string list") (address: int) (isAsync: bool)

text \<open>
  The fields of \<open>APLRuntime\<close> that the constructor sets, without \<open>neuralState\<close>
  (\<open>functionsMap\<close> is the field \<open>functions\<close>). The stacks are lists with the top at the
  head. \<open>this_bytecode\<close> is the field \<open>this.bytecode\<close> that \<open>opLoop\<close> and \<open>opFuncDecl\<close>
  read: the constructor sets no such field, \<open>execute\<close> keeps its argument in a
  local variable and nothing in the repository assigns the field, so it is \<open>undefined\<close>
  (\<open>None\<close>) unless a caller of the class assigns it. \<open>allocated\<close> counts the quantum
  state objects created so far (the source of object identities) and \<open>draws\<close> the calls
  of \<open>Math.random()\<close> so far.
\<close>

record runtime =
  memory :: "string \<rightharpoonup> value"
  stack :: "value list"
  callStack :: "frame list"
  functionsMap :: "string \<rightharpoonup> func"
  globals :: "string \<rightharpoonup> value"
  quantumState :: "qstate option"
  pc :: int
  running :: bool
  this_bytecode :: "instruction list option"
  allocated :: nat
  draws :: nat

text \<open>\<open>new APLRuntime()\<close>\<close>

definition new_runtime :: runtime where
  "new_runtime =
     \<lparr> memory = Map.empty, stack = [], callStack = [], functionsMap = Map.empty,
       globals = Map.empty, quantumState = None, pc = 0, running = False,
       this_bytecode = None, allocated = 0, draws = 0 \<rparr>"

text \<open>
  The result of a handler: the runtime after it, or an exception together with the runtime
  as the handler left it when it threw, or \<open>Unmodelled\<close> for what the model leaves out,
  or \<open>Exhausted\<close> when the fuel of a loop body ran out.
\<close>

datatype outcome = Done runtime | Thrown error runtime | Unmodelled | Exhausted

text \<open>\<open>Map.get\<close>: \<open>undefined\<close> for a key that is not bound.\<close>

definition map_get :: "(string \<rightharpoonup> value) \<Rightarrow> string \<Rightarrow> value" where
  "map_get m k = (case m k of None \<Rightarrow> VUndefined | Some v \<Rightarrow> v)"

text \<open>
  \<open>this.stack.pop()\<close> returns \<open>undefined\<close> on an empty array and leaves it empty;
  \<open>this.stack.push(v)\<close>.
\<close>

definition pop :: "runtime \<Rightarrow> value \<times> runtime" where
  "pop s = (case stack s of [] \<Rightarrow> (VUndefined, s) | v # rest \<Rightarrow> (v, s\<lparr>stack := rest\<rparr>))"

definition push :: "value \<Rightarrow> runtime \<Rightarrow> runtime" where
  "push v s = s\<lparr>stack := v # stack s\<rparr>"

subsection \<open>Memory operations\<close>

definition opMemLoad :: "string \<Rightarrow> runtime \<Rightarrow> outcome" where
  "opMemLoad source s =
     (let v = js_or (map_get (memory s) source) (map_get (globals s) source)
      in if v = VUndefined then Thrown (Error (''Undefined variable: '' @ source)) s
         else Done (push v s))"

definition opMemStore :: "string \<Rightarrow> runtime \<Rightarrow> outcome" where
  "opMemStore target s =
     (let (v, s1) = pop s in Done (s1\<lparr>memory := (memory s1)(target \<mapsto> v)\<rparr>))"

subsection \<open>Arithmetic operations\<close>

definition binop :: "(value \<Rightarrow> value \<Rightarrow> value option) \<Rightarrow> runtime \<Rightarrow> outcome" where
  "binop f s =
     (let (b, s1) = pop s; (a, s2) = pop s1
      in case f a b of None \<Rightarrow> Unmodelled | Some v \<Rightarrow> Done (push v s2))"

definition opAdd :: "runtime \<Rightarrow> outcome" where
  "opAdd = binop js_add"

definition opSub :: "runtime \<Rightarrow> outcome" where
  "opSub = binop js_sub"

definition opMul :: "runtime \<Rightarrow> outcome" where
  "opMul = binop js_mul"

definition opDiv :: "runtime \<Rightarrow> outcome" where
  "opDiv s =
     (let (b, s1) = pop s; (a, s2) = pop s1
      in if b = VNum (Fin 0) then Thrown (Error ''Division by zero'') s2
         else case js_div a b of None \<Rightarrow> Unmodelled | Some v \<Rightarrow> Done (push v s2))"

subsection \<open>Control flow\<close>

definition opJump :: "int \<Rightarrow> runtime \<Rightarrow> outcome" where
  "opJump target s = Done (s\<lparr>pc := target - 1\<rparr>)"

definition opJumpIf :: "int \<Rightarrow> runtime \<Rightarrow> outcome" where
  "opJumpIf target s =
     (let (condition, s1) = pop s
      in if truthy condition then Done (s1\<lparr>pc := target - 1\<rparr>) else Done s1)"

text \<open>
  \<open>args.unshift(this.stack.pop())\<close>, \<open>argCount\<close> times: the arguments in the order they
  were pushed.
\<close>

fun pop_args :: "nat \<Rightarrow> value list \<Rightarrow> runtime \<Rightarrow> value list \<times> runtime" where
  "pop_args 0 args s = (args, s)"
| "pop_args (Suc n) args s = (let (v, s1) = pop s in pop_args n (v # args) s1)"

text \<open>
  \<open>func.params.forEach((param, i) => this.memory.set(param.name, args[i]))\<close>; \<open>args[i]\<close>
  is \<open>undefined\<close> past the end of \<open>args\<close>.
\<close>

fun bind_params :: "string list \<Rightarrow> value list \<Rightarrow> (string \<rightharpoonup> value) \<Rightarrow> (string \<rightharpoonup> value)" where
  "bind_params [] args m = m"
| "bind_params (p # ps) [] m = bind_params ps [] (m(p \<mapsto> VUndefined))"
| "bind_params (p # ps) (a # args) m = bind_params ps args (m(p \<mapsto> a))"

definition opCall :: "string \<Rightarrow> nat \<Rightarrow> runtime \<Rightarrow> outcome" where
  "opCall fname argCount s =
     (let s1 = s\<lparr>callStack := Frame (pc s) (memory s) # callStack s\<rparr>
      in case functionsMap s1 fname of
           None \<Rightarrow> Thrown (Error (''Undefined function: '' @ fname)) s1
         | Some f \<Rightarrow>
             (let (args, s2) = pop_args argCount [] s1;
                  s3 = s2\<lparr>memory := bind_params (params f) args (memory s2)\<rparr>
              in Done (s3\<lparr>pc := address f - 1\<rparr>)))"

definition opReturn :: "runtime \<Rightarrow> outcome" where
  "opReturn s =
     (case callStack s of
        [] \<Rightarrow> Done (s\<lparr>running := False\<rparr>)
      | fr # rest \<Rightarrow>
          (let s1 = s\<lparr>callStack := rest, pc := frame_pc fr\<rparr>;
               returnValue = (case stack s1 of [] \<Rightarrow> VUndefined | v # _ \<Rightarrow> v);
               s2 = s1\<lparr>memory := frame_memory fr\<rparr>
           in if returnValue \<noteq> VUndefined then Done (push returnValue s2) else Done s2))"

subsection \<open>Quantum operations\<close>

text \<open>\<open>Math.pow(2, x)\<close>, taken as the correctly rounded power.\<close>

fun math_pow2 :: "jsnum \<Rightarrow> jsnum" where
  "math_pow2 NaN = NaN"
| "math_pow2 PInf = PInf"
| "math_pow2 NInf = Fin 0"
| "math_pow2 (Fin x) = round_double (2 powr x)"

text \<open>
  \<open>new Array(size)\<close> with a number: the length, or \<open>None\<close> for the \<open>RangeError\<close> that a
  size which is not an integer between 0 and 2^32 - 1 raises.
\<close>

fun array_length :: "jsnum \<Rightarrow> nat option" where
  "array_length (Fin y) =
     (if 0 \<le> y \<and> y \<le> 4294967295 \<and> y = of_int \<lfloor>y\<rfloor> then Some (nat \<lfloor>y\<rfloor>) else None)"
| "array_length n = None"

definition amp_zero :: amp where
  "amp_zero = \<lparr> amp_real = 0, amp_imag = 0 \<rparr>"

definition amp_one :: amp where
  "amp_one = \<lparr> amp_real = 1, amp_imag = 0 \<rparr>"

text \<open>
  \<open>initQuantumAmplitudes\<close>: the assignment \<open>amplitudes[0] = ...\<close> extends an array of
  length 0 to length 1.
\<close>

definition initQuantumAmplitudes :: "value \<Rightarrow> amp list res" where
  "initQuantumAmplitudes n =
     (case to_number n of
        None \<Rightarrow> NotModelled
      | Some x \<Rightarrow>
          (case array_length (math_pow2 x) of
             None \<Rightarrow> Err RangeError
           | Some sz \<Rightarrow>
               Ok (if sz = 0 then [amp_one] else (replicate sz amp_zero)[0 := amp_one])))"

text \<open>
  \<open>opQuantumInit\<close>: \<open>instruction.args[0]?.value || 1\<close> is the number of qubits; the new
  object becomes \<open>this.quantumState\<close> and a reference to it is pushed.
\<close>

definition opQuantumInit :: "value list \<Rightarrow> runtime \<Rightarrow> outcome" where
  "opQuantumInit args s =
     (let n = js_or (case args of [] \<Rightarrow> VUndefined | a # _ \<Rightarrow> a) (VNum (Fin 1))
      in case initQuantumAmplitudes n of
           NotModelled \<Rightarrow> Unmodelled
         | Err e \<Rightarrow> Thrown e s
         | Ok amps \<Rightarrow>
             (let q = \<lparr> qid = allocated s, numQubits = n, amplitudes = amps, entangled = [] \<rparr>
              in Done (push (VQState (qid q))
                         (s\<lparr>quantumState := Some q, allocated := Suc (allocated s)\<rparr>))))"

text \<open>
  \<open>1 << target\<close> on 32-bit integers: the shift count is taken modulo 32.
\<close>

definition bit_of :: "nat \<Rightarrow> 32 word" where
  "bit_of target = push_bit (target mod 32) 1"

text \<open>
  The loop of \<open>applyHadamard\<close> over the indices \<open>i\<close>, reading \<open>amplitudes\<close> and writing
  \<open>newAmplitudes\<close>. \<open>i & (1 << target)\<close> and \<open>i | (1 << target)\<close> work on the 32-bit
  signed integer of \<open>i\<close>; where \<open>amplitudes[j]\<close> is \<open>undefined\<close> (\<open>j\<close> negative or past
  the end) the destructuring throws a \<open>TypeError\<close> (\<open>None\<close>).
\<close>

fun hadamard_loop :: "nat \<Rightarrow> amp list \<Rightarrow> nat list \<Rightarrow> amp list \<Rightarrow> amp list option" where
  "hadamard_loop target amps [] new = Some new"
| "hadamard_loop target amps (i # is) new =
     (if (word_of_nat i :: 32 word) AND bit_of target = 0 then
        (let j = sint ((word_of_nat i :: 32 word) OR bit_of target)
         in if 0 \<le> j \<and> nat j < length amps then
              (let r0 = amp_real (amps ! i); i0 = amp_imag (amps ! i);
                   r1 = amp_real (amps ! nat j); i1 = amp_imag (amps ! nat j)
               in hadamard_loop target amps is
                    (new[i := \<lparr> amp_real = (r0 + r1) / sqrt 2, amp_imag = (i0 + i1) / sqrt 2 \<rparr>,
                         nat j := \<lparr> amp_real = (r0 - r1) / sqrt 2, amp_imag = (i0 - i1) / sqrt 2 \<rparr>]))
            else None)
      else hadamard_loop target amps is new)"

definition hadamard :: "nat \<Rightarrow> amp list \<Rightarrow> amp list option" where
  "hadamard target amps = hadamard_loop target amps [0..<length amps] amps"

definition applyHadamard :: "nat \<Rightarrow> runtime \<Rightarrow> outcome" where
  "applyHadamard target s =
     (case quantumState s of
        None \<Rightarrow> Thrown TypeError s
      | Some q \<Rightarrow>
          (case hadamard target (amplitudes q) of
             None \<Rightarrow> Thrown TypeError s
           | Some new \<Rightarrow> Done (s\<lparr>quantumState := Some (q\<lparr>amplitudes := new\<rparr>)\<rparr>)))"

text \<open>\<open>opQuantumGate\<close>; the gates \<open>CNOT\<close> and \<open>PHASE\<close> are not modelled.\<close>

definition opQuantumGate :: "string \<Rightarrow> nat \<Rightarrow> runtime \<Rightarrow> outcome" where
  "opQuantumGate gate target s =
     (if quantumState s = None then Thrown (Error ''Quantum state not initialized'') s
      else if gate = ''HADAMARD'' then applyHadamard target s
      else if gate = ''CNOT'' \<or> gate = ''PHASE'' then Unmodelled
      else Thrown (Error (''Unknown quantum gate: '' @ gate)) s)"

text \<open>
  The sampling loop of \<open>opQuantumMeasure\<close>: \<open>random\<close> is the value of \<open>Math.random()\<close>,
  \<open>cumulative\<close> the running sum and \<open>i\<close> the index of the first probability of the list.
  \<open>result\<close> stays 0 when the loop ends without a break.
\<close>

fun sample :: "real \<Rightarrow> real list \<Rightarrow> real \<Rightarrow> nat \<Rightarrow> nat" where
  "sample random [] cumulative i = 0"
| "sample random (p # ps) cumulative i =
     (if random < cumulative + p then i else sample random ps (cumulative + p) (Suc i))"

definition collapse :: "nat \<Rightarrow> amp list \<Rightarrow> amp list" where
  "collapse result amps = map (\<lambda>i. if i = result then amp_one else amp_zero) [0..<length amps]"

definition opQuantumMeasure :: "real \<Rightarrow> runtime \<Rightarrow> outcome" where
  "opQuantumMeasure random s =
     (case quantumState s of
        None \<Rightarrow> Thrown (Error ''Quantum state not initialized'') s
      | Some q \<Rightarrow>
          (let probabilities = map (\<lambda>a. amp_real a * amp_real a + amp_imag a * amp_imag a) (amplitudes q);
               result = sample random probabilities 0 0
           in Done (push (VNum (Fin (real result)))
                      (s\<lparr>quantumState := Some (q\<lparr>amplitudes := collapse result (amplitudes q)\<rparr>)\<rparr>))))"

subsection \<open>Loops and function declarations\<close>

text \<open>
  \<open>ToLength\<close> of a number: truncated, and clamped between 0 and 2^53 - 1.
\<close>

fun to_length :: "jsnum \<Rightarrow> nat" where
  "to_length NaN = 0"
| "to_length NInf = 0"
| "to_length PInf = 9007199254740991"
| "to_length (Fin x) = (if x \<le> 0 then 0 else min (nat \<lfloor>x\<rfloor>) 9007199254740991)"

text \<open>
  \<open>Array.from({ length: end - start }, (_, i) => start + i)\<close>: a length above 2^32 - 1
  raises a \<open>RangeError\<close>.
\<close>

definition range_array :: "value \<Rightarrow> value \<Rightarrow> value res" where
  "range_array start endv =
     (case js_sub endv start of
        Some (VNum d) \<Rightarrow>
          (if to_length d > 4294967295 then Err RangeError
           else case those (map (\<lambda>i. js_add start (VNum (Fin (real i)))) [0..<to_length d]) of
                  None \<Rightarrow> NotModelled
                | Some items \<Rightarrow> Ok (VArray items))
      | _ \<Rightarrow> NotModelled)"

text \<open>
  \<open>evalExpression\<close>. Reading \<open>expr.type\<close> of a missing argument of the range call throws
  a \<open>TypeError\<close>.
\<close>

fun evalExpression :: "runtime \<Rightarrow> expr \<Rightarrow> value res" where
  "evalExpression s (Identifier name) =
     Ok (js_or (map_get (memory s) name) (map_get (globals s) name))"
| "evalExpression s (Literal v) = Ok v"
| "evalExpression s (CallExpression callee []) =
     (if callee = VStr ''..'' then Err TypeError else Ok (VArray []))"
| "evalExpression s (CallExpression callee [a0]) =
     (if callee = VStr ''..'' then
        (case evalExpression s a0 of Ok start \<Rightarrow> Err TypeError | r \<Rightarrow> r)
      else Ok (VArray []))"
| "evalExpression s (CallExpression callee (a0 # a1 # rest)) =
     (if callee = VStr ''..'' then
        (case evalExpression s a0 of
           Ok start \<Rightarrow>
             (case evalExpression s a1 of Ok endv \<Rightarrow> range_array start endv | r \<Rightarrow> r)
         | r \<Rightarrow> r)
      else Ok (VArray []))"
| "evalExpression s OtherExpr = Ok (VArray [])"

text \<open>
  The items that \<open>for (const item of iterable)\<close> visits; a value that is not iterable
  throws a \<open>TypeError\<close>.
\<close>

fun iterate :: "value \<Rightarrow> value list res" where
  "iterate (VArray xs) = Ok xs"
| "iterate (VStr cs) = Ok (map (\<lambda>c. VStr [c]) cs)"
| "iterate v = Err TypeError"

text \<open>
  The loop that \<open>opFuncDecl\<close> and \<open>opLoop\<close> end with, on the bytecode \<open>bc\<close> that
  \<open>this.bytecode\<close> holds:
  \<^verbatim>\<open>while (depth > 0 && this.pc < this.bytecode.length) {
      this.pc++;
      if (this.bytecode[this.pc].opcode === opener) depth++;
      if (this.bytecode[this.pc].opcode === closer) depth--;
  }\<close>
  Reading \<open>opcode\<close> of \<open>this.bytecode[this.pc]\<close> past the end (or before the start) of
  the bytecode throws a \<open>TypeError\<close>.
\<close>

function skip_block :: "opcode \<Rightarrow> opcode \<Rightarrow> instruction list \<Rightarrow> nat \<Rightarrow> runtime \<Rightarrow> outcome" where
  "skip_block opener closer bc depth s =
     (if depth > 0 \<and> pc s < int (length bc) then
        (if pc s + 1 < 0 \<or> int (length bc) \<le> pc s + 1 then Thrown TypeError (s\<lparr>pc := pc s + 1\<rparr>)
         else skip_block opener closer bc
                ((if opcode_of (bc ! nat (pc s + 1)) = opener then depth + 1 else depth)
                 - (if opcode_of (bc ! nat (pc s + 1)) = closer then 1 else 0))
                (s\<lparr>pc := pc s + 1\<rparr>))
      else Done s)"
  by pat_completeness auto
termination
  by (relation "measure (\<lambda>(opener, closer, bc, depth, s). nat (int (length bc) - pc s))") auto

declare skip_block.simps [simp del]

text \<open>
  \<open>opFuncDecl\<close> registers the function with the address after the declaration, then
  skips to the matching \<open>RETURN\<close>. Where \<open>this.bytecode\<close> is \<open>undefined\<close>, reading its
  \<open>length\<close> throws a \<open>TypeError\<close>.
\<close>

definition opFuncDecl :: "string \<Rightarrow> string list \<Rightarrow> bool \<Rightarrow> runtime \<Rightarrow> outcome" where
  "opFuncDecl name ps async s =
     (let s1 = s\<lparr>functionsMap := (functionsMap s)(name \<mapsto> Func ps (pc s + 1) async)\<rparr>
      in case this_bytecode s1 of
           None \<Rightarrow> Thrown TypeError s1
         | Some bc \<Rightarrow> skip_block (OpStr ''FUNC_DECL'') (OpNum 19) bc 1 s1)"

subsection \<open>Dispatch and loops\<close>

text \<open>
  \<open>executeInstruction\<close>, with \<open>opLoop\<close>. \<open>randoms k\<close> is what the call number \<open>k\<close> of
  \<open>Math.random()\<close> returns. The fuel bounds how many instructions a loop body executes,
  nested bodies included; the other instructions need none.

  \<open>opLoop_items\<close> is the loop \<open>for (const item of iterable)\<close>: it binds the loop variable
  and runs the body from \<open>this.pc + 1\<close>. \<open>opLoop_body\<close> is the body loop
  \<^verbatim>\<open>while (depth > 0 && bodyPc < this.bytecode.length) {
      if (this.bytecode[bodyPc].opcode === 'LOOP') depth++;
      if (this.bytecode[bodyPc].opcode === 'LOOP_END') depth--;
      if (depth > 0) await this.executeInstruction(this.bytecode[bodyPc]);
      bodyPc++;
  }\<close>
  After the items, \<open>opLoop\<close> skips to the matching \<open>LOOP_END\<close>. Where \<open>this.bytecode\<close> is
  \<open>undefined\<close>, reading its \<open>length\<close> throws a \<open>TypeError\<close>: in the body loop of the
  first item, after the loop variable is bound, or in the skip loop when there is no item.
\<close>

fun executeInstruction :: "nat \<Rightarrow> (nat \<Rightarrow> real) \<Rightarrow> instruction \<Rightarrow> runtime \<Rightarrow> outcome"
  and opLoop_items :: "nat \<Rightarrow> (nat \<Rightarrow> real) \<Rightarrow> string \<Rightarrow> value list \<Rightarrow> runtime \<Rightarrow> outcome"
  and opLoop_body :: "nat \<Rightarrow> (nat \<Rightarrow> real) \<Rightarrow> instruction list \<Rightarrow> nat \<Rightarrow> int \<Rightarrow> runtime \<Rightarrow> outcome"
  where
  "executeInstruction fuel randoms (MEM_LOAD source) s = opMemLoad source s"
| "executeInstruction fuel randoms (MEM_STORE target) s = opMemStore target s"
| "executeInstruction fuel randoms (QUANTUM_INIT args) s = opQuantumInit args s"
| "executeInstruction fuel randoms (QUANTUM_GATE gate target) s = opQuantumGate gate target s"
| "executeInstruction fuel randoms QUANTUM_MEASURE s =
     (case opQuantumMeasure (randoms (draws s)) s of
        Done s1 \<Rightarrow> Done (s1\<lparr>draws := Suc (draws s1)\<rparr>)
      | other \<Rightarrow> other)"
| "executeInstruction fuel randoms (JUMP target) s = opJump target s"
| "executeInstruction fuel randoms (JUMP_IF target) s = opJumpIf target s"
| "executeInstruction fuel randoms (CALL fname argCount) s = opCall fname argCount s"
| "executeInstruction fuel randoms RETURN s = opReturn s"
| "executeInstruction fuel randoms (LOOP variable iterable) s =
     (case evalExpression s iterable of
        NotModelled \<Rightarrow> Unmodelled
      | Err e \<Rightarrow> Thrown e s
      | Ok v \<Rightarrow>
          (case iterate v of
             NotModelled \<Rightarrow> Unmodelled
           | Err e \<Rightarrow> Thrown e s
           | Ok items \<Rightarrow>
               (case opLoop_items fuel randoms variable items s of
                  Done s1 \<Rightarrow>
                    (case this_bytecode s1 of
                       None \<Rightarrow> Thrown TypeError s1
                     | Some bc \<Rightarrow> skip_block (OpStr ''LOOP'') (OpStr ''LOOP_END'') bc 1 s1)
                | other \<Rightarrow> other)))"
| "executeInstruction fuel randoms ADD s = opAdd s"
| "executeInstruction fuel randoms SUB s = opSub s"
| "executeInstruction fuel randoms MUL s = opMul s"
| "executeInstruction fuel randoms DIV s = opDiv s"
| "executeInstruction fuel randoms (FUNC_DECL name ps async) s = opFuncDecl name ps async s"
| "executeInstruction fuel randoms (PUSH_CONST v) s = Done (push v s)"
| "executeInstruction fuel randoms LOOP_END s = Done s"
| "executeInstruction fuel randoms (OTHER text) s = Thrown (Error (''Unknown opcode: '' @ text)) s"
| "executeInstruction fuel randoms MEM_ALLOC s = Unmodelled"
| "executeInstruction fuel randoms MEM_FREE s = Unmodelled"
| "executeInstruction fuel randoms PATTERN_MATCH s = Unmodelled"
| "executeInstruction fuel randoms PATTERN_BIND s = Unmodelled"
| "executeInstruction fuel randoms NEURAL_SPIKE s = Unmodelled"
| "executeInstruction fuel randoms NEURAL_LEARN s = Unmodelled"
| "executeInstruction fuel randoms QUANTUM_ENTANGLE s = Unmodelled"
| "executeInstruction fuel randoms PARALLEL s = Unmodelled"
| "opLoop_items fuel randoms variable [] s = Done s"
| "opLoop_items fuel randoms variable (item # items) s =
     (case this_bytecode s of
        None \<Rightarrow> Thrown TypeError (s\<lparr>memory := (memory s)(variable \<mapsto> item)\<rparr>)
      | Some bc \<Rightarrow>
          (case opLoop_body fuel randoms bc 1 (pc s + 1) (s\<lparr>memory := (memory s)(variable \<mapsto> item)\<rparr>) of
             Done s1 \<Rightarrow> opLoop_items fuel randoms variable items s1
           | other \<Rightarrow> other))"
| "opLoop_body 0 randoms bc depth bodyPc s =
     (if depth > 0 \<and> bodyPc < int (length bc) then Exhausted else Done s)"
| "opLoop_body (Suc n) randoms bc depth bodyPc s =
     (if depth > 0 \<and> bodyPc < int (length bc) then
        (if bodyPc < 0 then Thrown TypeError s
         else if (if opcode_of (bc ! nat bodyPc) = OpStr ''LOOP'' then depth + 1 else depth)
                   - (if opcode_of (bc ! nat bodyPc) = OpStr ''LOOP_END'' then 1 else 0) > 0
              then
                (case executeInstruction n randoms (bc ! nat bodyPc) s of
                   Done s1 \<Rightarrow>
                     opLoop_body n randoms bc
                       ((if opcode_of (bc ! nat bodyPc) = OpStr ''LOOP'' then depth + 1 else depth)
                        - (if opcode_of (bc ! nat bodyPc) = OpStr ''LOOP_END'' then 1 else 0))
                       (bodyPc + 1) s1
                 | other \<Rightarrow> other)
              else
                opLoop_body n randoms bc
                  ((if opcode_of (bc ! nat bodyPc) = OpStr ''LOOP'' then depth + 1 else depth)
                   - (if opcode_of (bc ! nat bodyPc) = OpStr ''LOOP_END'' then 1 else 0))
                  (bodyPc + 1) s)
      else Done s)"

text \<open>\<open>opLoop\<close> is the case of \<open>executeInstruction\<close> for a \<open>LOOP\<close> instruction.\<close>

definition opLoop :: "nat \<Rightarrow> (nat \<Rightarrow> real) \<Rightarrow> string \<Rightarrow> expr \<Rightarrow> runtime \<Rightarrow> outcome" where
  "opLoop fuel randoms variable iterable s = executeInstruction fuel randoms (LOOP variable iterable) s"

subsection \<open>The run loop\<close>

text \<open>
  What \<open>execute\<close> returns: \<open>{success: true, result}\<close> with the top of the stack or
  \<open>null\<close>, or \<open>{success: false, error, pc}\<close>.
\<close>

datatype exec_result = Success "value" | Failure error int

text \<open>
  A run of \<open>execute\<close>: finished with its result and the runtime it leaves, or cut off
  because the fuel ran out, or outside the model because it reached an instruction or a
  conversion that is not modelled.
\<close>

datatype run = Finished exec_result runtime | OutOfFuel | Outside

text \<open>
  The loop of \<open>execute\<close> on its argument \<open>bytecode\<close>, one instruction for each unit of
  fuel. A negative \<open>pc\<close> reads \<open>undefined\<close> from the bytecode, and the destructuring in
  \<open>executeInstruction\<close> throws a \<open>TypeError\<close>.
\<close>

fun execute_loop :: "nat \<Rightarrow> (nat \<Rightarrow> real) \<Rightarrow> instruction list \<Rightarrow> runtime \<Rightarrow> run" where
  "execute_loop 0 randoms bytecode s =
     (if pc s < int (length bytecode) \<and> running s then OutOfFuel
      else Finished (Success (case stack s of [] \<Rightarrow> VNull | v # rest \<Rightarrow> v)) s)"
| "execute_loop (Suc n) randoms bytecode s =
     (if pc s < int (length bytecode) \<and> running s then
        (if pc s < 0 then Finished (Failure TypeError (pc s)) s
         else case executeInstruction n randoms (bytecode ! nat (pc s)) s of
                Done s1 \<Rightarrow> execute_loop n randoms bytecode (s1\<lparr>pc := pc s1 + 1\<rparr>)
              | Thrown e s1 \<Rightarrow> Finished (Failure e (pc s1)) s1
              | Unmodelled \<Rightarrow> Outside
              | Exhausted \<Rightarrow> OutOfFuel)
      else Finished (Success (case stack s of [] \<Rightarrow> VNull | v # rest \<Rightarrow> v)) s)"

text \<open>A stream of random draws that are all 0, for runs that draw none.\<close>

definition no_randoms :: "nat \<Rightarrow> real" where
  "no_randoms k = 0"

text \<open>\<open>execute\<close> sets \<open>pc\<close> and \<open>running\<close>, and nothing else, before its loop.\<close>

definition execute :: "nat \<Rightarrow> (nat \<Rightarrow> real) \<Rightarrow> instruction list \<Rightarrow> runtime \<Rightarrow> run" where
  "execute fuel randoms bytecode s = execute_loop fuel randoms bytecode (s\<lparr>pc := 0, running := True\<rparr>)"

section \<open>The symbol map and the compiler (src/src/runic-map.js)\<close>

subsection \<open>Source text\<close>

text \<open>
  A JavaScript string is a list of UTF-16 code units. Every character of the two tables
  is one code unit; a rune is written by its code point. \<open>asc\<close> gives the code units of
  an ASCII text.
\<close>

type_synonym ustring = "nat list"

definition asc :: "string \<Rightarrow> ustring" where
  "asc cs = map of_char cs"

subsection \<open>RunicMap\<close>

text \<open>\<open>RunicMap.asciiToRunic\<close>, in the order of the object literal.\<close>

definition asciiToRunic :: "(ustring \<times> ustring) list" where
  "asciiToRunic =
     [(asc ''Q.super'', [0x16E9]), (asc ''Q.gate'', [0x16DC]), (asc ''Q.entangle'', [0x1660]),
      (asc ''Q.teleport'', [0x16EA]),
      (asc ''G.cross'', [0x16B4]), (asc ''G.fitness'', [0x16A0]), (asc ''G.mutate'', [0x16A5]),
      (asc ''N.net'', [0x16BE]), (asc ''N.match'', [0x16C8]), (asc ''N.synapse'', [0x16D2]),
      (asc ''N.learn'', [0x16BB]),
      (asc ''C.phi'', [0x16B3]), (asc ''C.integrate'', [0x16C7]),
      (asc ''S.reason'', [0x16CA]), (asc ''S.graph'', [0x16D5]),
      (asc ''R.osc'', [0x16DF]), (asc ''R.sync'', [0x16B1]),
      (asc ''M.access'', [0x16D7]),
      (asc ''D.dist'', [0x16DE]), (asc ''D.unify'', [0x16A2]), (asc ''D.bind'', [0x16C2]),
      (asc ''C.rate'', [0x16A4]), (asc ''C.yield'', [0x16D8]), (asc ''C.init'', [0x16CE]),
      (asc ''T.quantum'', asc ''QReg''), (asc ''T.spike'', asc ''Spike''),
      (asc ''T.neuron'', asc ''Neuron''), (asc ''T.synapse'', asc ''Synapse''),
      (asc ''T.int'', asc ''Int''), (asc ''T.float'', asc ''Float''), (asc ''T.bool'', asc ''Bool''),
      (asc ''T.array'', asc ''Array''), (asc ''T.map'', asc ''Map''),
      (asc ''T.qstate'', asc ''QState''), (asc ''T.epr'', asc ''EPR'')]"

text \<open>
  \<open>code.split(sep)\<close> for a separator that is not empty: \<open>cur\<close> is the piece being read.
  With the empty separator the pieces are the single code units.
\<close>

function split_from :: "ustring \<Rightarrow> ustring \<Rightarrow> ustring \<Rightarrow> ustring list" where
  "split_from sep cur [] = [cur]"
| "split_from sep cur (c # cs) =
     (if sep \<noteq> [] \<and> take (length sep) (c # cs) = sep
      then cur # split_from sep [] (drop (length sep) (c # cs))
      else split_from sep (cur @ [c]) cs)"
  by pat_completeness auto
termination
  by (relation "measure (\<lambda>(sep, cur, code). length code)") auto

definition split :: "ustring \<Rightarrow> ustring \<Rightarrow> ustring list" where
  "split sep code = (if sep = [] then map (\<lambda>c. [c]) code else split_from sep [] code)"

fun join :: "ustring \<Rightarrow> ustring list \<Rightarrow> ustring" where
  "join r [] = []"
| "join r [p] = p"
| "join r (p # ps) = p @ r @ join r ps"

text \<open>
  \<open>toRunic\<close>: the keys sorted by decreasing length (the sort is stable), then one
  \<open>split(ascii).join(runic)\<close> for each key in that order.
\<close>

definition sortedKeys :: "ustring list" where
  "sortedKeys = sort_key (\<lambda>k. - int (length k)) (map fst asciiToRunic)"

definition replace_key :: "ustring \<Rightarrow> ustring \<Rightarrow> ustring" where
  "replace_key result ascii =
     (case map_of asciiToRunic ascii of
        None \<Rightarrow> result
      | Some runic \<Rightarrow> join runic (split ascii result))"

definition toRunic :: "ustring \<Rightarrow> ustring" where
  "toRunic code = foldl replace_key code sortedKeys"

text \<open>
  \<open>normalize\<close>: the test for a character between U+16A0 and U+16FF or between U+1400
  and U+167F decides the mode; the code is returned as it is in both branches.
\<close>

definition hasRunic :: "ustring \<Rightarrow> bool" where
  "hasRunic code = list_ex (\<lambda>c. (0x16A0 \<le> c \<and> c \<le> 0x16FF) \<or> (0x1400 \<le> c \<and> c \<le> 0x167F)) code"

definition normalize :: "ustring \<Rightarrow> ustring \<times> string" where
  "normalize code = (if hasRunic code then (code, ''runic'') else (code, ''ascii''))"

subsection \<open>Tokens\<close>

text \<open>An entry \<open>{op, hw, desc}\<close> of the table \<open>runicAlphabet\<close>.\<close>

datatype opdesc = OpDesc (op: string) (hw: string) (desc: string)

text \<open>
  The tables of \<open>APLCompiler\<close> that the tokenizer reads: \<open>runicAlphabet\<close> and
  \<open>dataTypes\<close>, keyed by strings, and the three strings that the test in front of the
  data-type branch compares \<open>char\<close> with (\<open>typeLeads\<close>). The compiler file writes the
  keys of the tables and these three strings as the UTF-8 bytes of a rune, each byte shown
  as one character; the tokenizer takes the tables as a parameter, so that no result
  depends on how these keys are read.
\<close>

record tables =
  runicAlphabet :: "(ustring \<times> opdesc) list"
  dataTypes :: "(ustring \<times> string) list"
  typeLeads :: "ustring list"

text \<open>
  The tables as the compiler means them, with every key read as the rune that it encodes.
  (The text of the descriptions is ASCII here: \<open>Phi\<close> stands for the Greek letter.)
\<close>

definition rune_tables :: tables where
  "rune_tables =
     \<lparr> runicAlphabet =
     [([0x16E9], OpDesc ''QUANTUM_SUPERPOSITION'' ''QFU'' ''Quantum Superposition Engine''),
      ([0x16DC], OpDesc ''QUANTUM_GATE'' ''QFU'' ''Quantum Gate Executor''),
      ([0x1660], OpDesc ''ENTANGLEMENT'' ''QFU'' ''Entanglement Generator''),
      ([0x16EA], OpDesc ''QUANTUM_TELEPORT'' ''QFU'' ''Quantum Teleportation''),
      ([0x16B4], OpDesc ''GENETIC_CROSSOVER'' ''GEU'' ''Genetic Crossover Accelerator''),
      ([0x16A0], OpDesc ''FITNESS_EVAL'' ''GEU'' ''Fitness Evaluation Unit''),
      ([0x16A5], OpDesc ''MUTATION'' ''GEU'' ''Variance/Mutation Generator''),
      ([0x16BE], OpDesc ''NEURAL_NETWORK'' ''NPU'' ''Neural Network Accelerator''),
      ([0x16C8], OpDesc ''PATTERN_MATCH'' ''NPU'' ''Pattern Matching (BLOOM)''),
      ([0x16CF], OpDesc ''TRIPARTITE_SYNAPSE'' ''NPU'' ''Tripartite Synapse Processor''),
      ([0x16BB], OpDesc ''HEBBIAN_LEARNING'' ''NPU'' ''Hebbian Learning Engine''),
      ([0x16B3], OpDesc ''CONSCIOUSNESS'' ''CU'' ''Consciousness (Phi) Calculator''),
      ([0x16C7], OpDesc ''INFORMATION_INTEGRATION'' ''CU'' ''Information Integration''),
      ([0x16CA], OpDesc ''SYMBOLIC_REASONING'' ''SRE'' ''Symbolic Reasoning Engine''),
      ([0x16D5], OpDesc ''KNOWLEDGE_GRAPH'' ''SRE'' ''Knowledge Graph Processor''),
      ([0x16DF], OpDesc ''OSCILLATOR'' ''RU'' ''Oscillator (Resonance)''),
      ([0x16B1], OpDesc ''RESONANCE_SYNC'' ''RU'' ''Resonance Synchronizer''),
      ([0x16D7], OpDesc ''MEMORY_ACCESS'' ''MU'' ''Memory Access (Quantum + Classical)''),
      ([0x16DE], OpDesc ''DISTRIBUTE'' ''COORD'' ''Distribution Coordinator''),
      ([0x16A2], OpDesc ''UNIFY'' ''COORD'' ''Unification (Neurosymbolic)''),
      ([0x16C2], OpDesc ''BIND'' ''COORD'' ''Junction/Binding Unit''),
      ([0x16A4], OpDesc ''LEARNING_RATE'' ''CTRL'' ''Learning Rate Modulator''),
      ([0x16D8], OpDesc ''YIELD'' ''CTRL'' ''Yield (Concurrency)''),
      ([0x16CE], OpDesc ''INITIALIZE'' ''CTRL'' ''Zero/Initialize''),
      ([0x16B9], OpDesc ''WAVE_PROPAGATION'' ''NPU'' ''Wave Propagation'')],
       dataTypes =
     [([0x16DC, 0x16A2, 0x16E9, 0x16BE, 0x16CF, 0x16A2, 0x16D7], ''Quantum''),
      ([0x16CA, 0x16C8, 0x16C7, 0x16D5, 0x1660], ''Spike''),
      ([0x16BE, 0x1660, 0x16A2, 0x16B1, 0x16DF, 0x16BE], ''Neuron''),
      ([0x16CA, 0x16D8, 0x16BE, 0x16E9, 0x16C8, 0x16CA, 0x1660], ''Synapse''),
      ([0x16C7, 0x16BE, 0x16CF], ''Int''),
      ([0x16A0, 0x16A4, 0x16DF, 0x16E9, 0x16CF], ''Float''),
      ([0x16C2, 0x16DF, 0x16DF, 0x16A4], ''Bool''),
      ([0x16E9, 0x16B1, 0x16B1, 0x16E9, 0x16D8], ''Array''),
      ([0x16D7, 0x16E9, 0x16C8], ''Map''),
      ([0x16DC, 0x16CA, 0x16CF, 0x16E9, 0x16CF, 0x1660], ''QState''),
      ([0x1660, 0x16BE, 0x16CF, 0x16E9, 0x16BE, 0x161B, 0x16A4, 0x1660, 0x16D7, 0x1660, 0x16BE, 0x16CF],
       ''EPR'')],
       typeLeads = [[0x16DC], [0x16CA], [0x16BE]] \<rparr>"

text \<open>
  The tables as the compiler file has them: every key, and each of the three strings of the
  test in front of the data-type branch, is a string of three code units for each rune
  (U+00E1 U+203A U+00A9 where \<open>rune_tables\<close> has U+16E9). (The text of the descriptions
  is ASCII here, as in \<open>rune_tables\<close>.)
\<close>

definition file_tables :: tables where
  "file_tables =
     \<lparr> runicAlphabet =
     [([0x00E1, 0x203A, 0x00A9], OpDesc ''QUANTUM_SUPERPOSITION'' ''QFU'' ''Quantum Superposition Engine''),
      ([0x00E1, 0x203A, 0x0153], OpDesc ''QUANTUM_GATE'' ''QFU'' ''Quantum Gate Executor''),
      ([0x00E1, 0x2122, 0x00A0], OpDesc ''ENTANGLEMENT'' ''QFU'' ''Entanglement Generator''),
      ([0x00E1, 0x203A, 0x00AA], OpDesc ''QUANTUM_TELEPORT'' ''QFU'' ''Quantum Teleportation''),
      ([0x00E1, 0x0161, 0x00B4], OpDesc ''GENETIC_CROSSOVER'' ''GEU'' ''Genetic Crossover Accelerator''),
      ([0x00E1, 0x0161, 0x00A0], OpDesc ''FITNESS_EVAL'' ''GEU'' ''Fitness Evaluation Unit''),
      ([0x00E1, 0x0161, 0x00A5], OpDesc ''MUTATION'' ''GEU'' ''Variance/Mutation Generator''),
      ([0x00E1, 0x0161, 0x00BE], OpDesc ''NEURAL_NETWORK'' ''NPU'' ''Neural Network Accelerator''),
      ([0x00E1, 0x203A, 0x02C6], OpDesc ''PATTERN_MATCH'' ''NPU'' ''Pattern Matching (BLOOM)''),
      ([0x00E1, 0x203A, 0x008F], OpDesc ''TRIPARTITE_SYNAPSE'' ''NPU'' ''Tripartite Synapse Processor''),
      ([0x00E1, 0x0161, 0x00BB], OpDesc ''HEBBIAN_LEARNING'' ''NPU'' ''Hebbian Learning Engine''),
      ([0x00E1, 0x0161, 0x00B3], OpDesc ''CONSCIOUSNESS'' ''CU'' ''Consciousness (Phi) Calculator''),
      ([0x00E1, 0x203A, 0x2021], OpDesc ''INFORMATION_INTEGRATION'' ''CU'' ''Information Integration''),
      ([0x00E1, 0x203A, 0x0160], OpDesc ''SYMBOLIC_REASONING'' ''SRE'' ''Symbolic Reasoning Engine''),
      ([0x00E1, 0x203A, 0x2022], OpDesc ''KNOWLEDGE_GRAPH'' ''SRE'' ''Knowledge Graph Processor''),
      ([0x00E1, 0x203A, 0x0178], OpDesc ''OSCILLATOR'' ''RU'' ''Oscillator (Resonance)''),
      ([0x00E1, 0x0161, 0x00B1], OpDesc ''RESONANCE_SYNC'' ''RU'' ''Resonance Synchronizer''),
      ([0x00E1, 0x203A, 0x2014], OpDesc ''MEMORY_ACCESS'' ''MU'' ''Memory Access (Quantum + Classical)''),
      ([0x00E1, 0x203A, 0x017E], OpDesc ''DISTRIBUTE'' ''COORD'' ''Distribution Coordinator''),
      ([0x00E1, 0x0161, 0x00A2], OpDesc ''UNIFY'' ''COORD'' ''Unification (Neurosymbolic)''),
      ([0x00E1, 0x203A, 0x201A], OpDesc ''BIND'' ''COORD'' ''Junction/Binding Unit''),
      ([0x00E1, 0x0161, 0x00A4], OpDesc ''LEARNING_RATE'' ''CTRL'' ''Learning Rate Modulator''),
      ([0x00E1, 0x203A, 0x02DC], OpDesc ''YIELD'' ''CTRL'' ''Yield (Concurrency)''),
      ([0x00E1, 0x203A, 0x017D], OpDesc ''INITIALIZE'' ''CTRL'' ''Zero/Initialize''),
      ([0x00E1, 0x0161, 0x00B9], OpDesc ''WAVE_PROPAGATION'' ''NPU'' ''Wave Propagation'')],
       dataTypes =
     [([0x00E1, 0x203A, 0x0153, 0x00E1, 0x0161, 0x00A2, 0x00E1, 0x203A, 0x00A9, 0x00E1, 0x0161,
        0x00BE, 0x00E1, 0x203A, 0x008F, 0x00E1, 0x0161, 0x00A2, 0x00E1, 0x203A, 0x2014],
       ''Quantum''),
      ([0x00E1, 0x203A, 0x0160, 0x00E1, 0x203A, 0x02C6, 0x00E1, 0x203A, 0x2021, 0x00E1, 0x203A,
        0x2022, 0x00E1, 0x2122, 0x00A0],
       ''Spike''),
      ([0x00E1, 0x0161, 0x00BE, 0x00E1, 0x2122, 0x00A0, 0x00E1, 0x0161, 0x00A2, 0x00E1, 0x0161,
        0x00B1, 0x00E1, 0x203A, 0x0178, 0x00E1, 0x0161, 0x00BE],
       ''Neuron''),
      ([0x00E1, 0x203A, 0x0160, 0x00E1, 0x203A, 0x02DC, 0x00E1, 0x0161, 0x00BE, 0x00E1, 0x203A,
        0x00A9, 0x00E1, 0x203A, 0x02C6, 0x00E1, 0x203A, 0x0160, 0x00E1, 0x2122, 0x00A0],
       ''Synapse''),
      ([0x00E1, 0x203A, 0x2021, 0x00E1, 0x0161, 0x00BE, 0x00E1, 0x203A, 0x008F],
       ''Int''),
      ([0x00E1, 0x0161, 0x00A0, 0x00E1, 0x0161, 0x00A4, 0x00E1, 0x203A, 0x0178, 0x00E1, 0x203A,
        0x00A9, 0x00E1, 0x203A, 0x008F],
       ''Float''),
      ([0x00E1, 0x203A, 0x201A, 0x00E1, 0x203A, 0x0178, 0x00E1, 0x203A, 0x0178, 0x00E1, 0x0161,
        0x00A4],
       ''Bool''),
      ([0x00E1, 0x203A, 0x00A9, 0x00E1, 0x0161, 0x00B1, 0x00E1, 0x0161, 0x00B1, 0x00E1, 0x203A,
        0x00A9, 0x00E1, 0x203A, 0x02DC],
       ''Array''),
      ([0x00E1, 0x203A, 0x2014, 0x00E1, 0x203A, 0x00A9, 0x00E1, 0x203A, 0x02C6],
       ''Map''),
      ([0x00E1, 0x203A, 0x0153, 0x00E1, 0x203A, 0x0160, 0x00E1, 0x203A, 0x008F, 0x00E1, 0x203A,
        0x00A9, 0x00E1, 0x203A, 0x008F, 0x00E1, 0x2122, 0x00A0],
       ''QState''),
      ([0x00E1, 0x2122, 0x00A0, 0x00E1, 0x0161, 0x00BE, 0x00E1, 0x203A, 0x008F, 0x00E1, 0x203A,
        0x00A9, 0x00E1, 0x0161, 0x00BE, 0x00E1, 0x02DC, 0x203A, 0x00E1, 0x0161, 0x00A4, 0x00E1,
        0x2122, 0x00A0, 0x00E1, 0x203A, 0x2014, 0x00E1, 0x2122, 0x00A0, 0x00E1, 0x0161, 0x00BE,
        0x00E1, 0x203A, 0x008F],
       ''EPR'')],
       typeLeads = [[0x00E1, 0x203A, 0x0153], [0x00E1, 0x203A, 0x0160], [0x00E1, 0x0161, 0x00BE]] \<rparr>"

text \<open>
  The field \<open>value\<close> of a token: a string, or the number that \<open>parseFloat\<close> returned.
\<close>

datatype tok_value = Str ustring | Num real

text \<open>
  A token, by its \<open>type\<close>, with its \<open>value\<close> and, for a rune, \<open>op\<close>, for a type,
  \<open>dataType\<close>. \<open>TYPEWORD\<close> is the type \<open>TYPE\<close>.
\<close>

datatype token =
    RUNE nat opdesc
  | TYPEWORD ustring string
  | IDENTIFIER ustring
  | NUMBER real
  | DELIMITER nat
  | OPERATOR nat
  | KEYWORD ustring

fun token_value :: "token \<Rightarrow> tok_value" where
  "token_value (RUNE c d) = Str [c]"
| "token_value (TYPEWORD w t) = Str w"
| "token_value (IDENTIFIER w) = Str w"
| "token_value (NUMBER v) = Num v"
| "token_value (DELIMITER c) = Str [c]"
| "token_value (OPERATOR c) = Str [c]"
| "token_value (KEYWORD w) = Str w"

subsection \<open>The tokenizer\<close>

text \<open>\<open>/\s/\<close>, \<open>/[0-9]/\<close>, \<open>/[a-zA-Z]/\<close> on a code unit, and the list of keywords.\<close>

definition isWhitespace :: "nat \<Rightarrow> bool" where
  "isWhitespace c =
     (c \<in> {0x09, 0x0A, 0x0B, 0x0C, 0x0D, 0x20, 0xA0, 0x1680, 0x2028, 0x2029, 0x202F, 0x205F,
            0x3000, 0xFEFF}
      \<or> (0x2000 \<le> c \<and> c \<le> 0x200A))"

definition isDigit :: "nat \<Rightarrow> bool" where
  "isDigit c = (48 \<le> c \<and> c \<le> 57)"

definition isAlpha :: "nat \<Rightarrow> bool" where
  "isAlpha c = ((97 \<le> c \<and> c \<le> 122) \<or> (65 \<le> c \<and> c \<le> 90))"

definition isKeyword :: "ustring \<Rightarrow> bool" where
  "isKeyword word =
     (word \<in> set (map asc [''function'', ''if'', ''else'', ''for'', ''while'', ''return'', ''let'',
                            ''const'', ''var'']))"

text \<open>
  \<open>parseFloat\<close> on a text of digits and dots that starts with a digit: the digits up to
  the first dot, and the digits between the first dot and the second, as a decimal.
\<close>

definition digits_value :: "ustring \<Rightarrow> nat" where
  "digits_value ds = foldl (\<lambda>n d. 10 * n + (d - 48)) 0 ds"

definition parseFloat :: "ustring \<Rightarrow> real" where
  "parseFloat num =
     (let whole = takeWhile isDigit num
      in case dropWhile isDigit num of
           [] \<Rightarrow> real (digits_value whole)
         | dot # rest \<Rightarrow>
             (let fraction = takeWhile isDigit rest
              in real (digits_value whole) + real (digits_value fraction) / 10 ^ length fraction))"

text \<open>The conditions of the three inner loops that read a word or a number.\<close>

definition typeChar :: "nat \<Rightarrow> bool" where
  "typeChar c = (\<not> isWhitespace c \<and> c \<noteq> of_char CHR ''('' \<and> c \<noteq> of_char CHR '')'')"

definition numChar :: "nat \<Rightarrow> bool" where
  "numChar c = (isDigit c \<or> c = of_char CHR ''.'')"

definition wordChar :: "nat \<Rightarrow> bool" where
  "wordChar c = (isAlpha c \<or> isDigit c \<or> c = of_char CHR ''_'')"

text \<open>
  \<open>tokenize\<close>, on the text from the cursor \<open>i\<close> on; \<open>char\<close> is the string of the one
  code unit \<open>c\<close>. The first character of a number or of a word of letters satisfies the
  condition of its loop, so the word is that character and the longest run after it; the
  same holds for a word of the data-type branch as long as no lead is a whitespace
  character or a parenthesis.
\<close>

function tokenize :: "tables \<Rightarrow> ustring \<Rightarrow> token list" where
  "tokenize tb [] = []"
| "tokenize tb (c # cs) =
     (case map_of (runicAlphabet tb) [c] of
        Some d \<Rightarrow> RUNE c d # tokenize tb cs
      | None \<Rightarrow>
          if [c] \<in> set (typeLeads tb) then
            (case map_of (dataTypes tb) (c # takeWhile typeChar cs) of
               Some t \<Rightarrow> TYPEWORD (c # takeWhile typeChar cs) t
             | None \<Rightarrow> IDENTIFIER (c # takeWhile typeChar cs))
            # tokenize tb (dropWhile typeChar cs)
          else if isDigit c then
            NUMBER (parseFloat (c # takeWhile numChar cs)) # tokenize tb (dropWhile numChar cs)
          else if isWhitespace c then tokenize tb cs
          else if c \<in> set (asc ''(){}[]'') then DELIMITER c # tokenize tb cs
          else if c \<in> set (asc ''+-*/='') then OPERATOR c # tokenize tb cs
          else if isAlpha c then
            (if isKeyword (c # takeWhile wordChar cs) then KEYWORD (c # takeWhile wordChar cs)
             else IDENTIFIER (c # takeWhile wordChar cs))
            # tokenize tb (dropWhile wordChar cs)
          else tokenize tb cs)"
  by pat_completeness auto
termination
  by (relation "measure (\<lambda>(tb, code). length code)") (auto simp add: le_imp_less_Suc length_dropWhile_le)

subsection \<open>The parser\<close>

text \<open>
  The nodes that \<open>walk\<close> builds (\<open>IdentifierNode\<close> is the node of type \<open>Identifier\<close>). The
  program node is represented by its \<open>body\<close>.
\<close>

datatype node =
    NumberLiteral real
  | HardwareOperation string string string "node list"
  | IdentifierNode tok_value
  | FunctionDeclaration tok_value "tok_value list" "node list"
  | Unknown token

text \<open>
  The result of a parsing step: what it built and the tokens from the cursor \<open>current\<close>
  on, or a thrown error, or \<open>NoFuel\<close> when the recursion budget is used up.
\<close>

datatype 'a parsed = Parsed 'a "token list" | Raised error | NoFuel

text \<open>
  The loop of \<open>walk\<close> that reads the names of the parameters of a function declaration,
  up to a token whose value is \<open>)\<close> or to the end of the tokens.
\<close>

fun param_names :: "token list \<Rightarrow> tok_value list \<Rightarrow> tok_value list \<times> token list" where
  "param_names [] ps = (ps, [])"
| "param_names [t] ps = (if token_value t = Str (asc '')'') then (ps, [t]) else (ps @ [token_value t], []))"
| "param_names (t # t' # ts) ps =
     (if token_value t = Str (asc '')'') then (ps, t # t' # ts)
      else if token_value t' = Str (asc '','') then param_names ts (ps @ [token_value t])
      else param_names (t' # ts) (ps @ [token_value t]))"

text \<open>
  \<open>walk\<close>, and its two loops that call \<open>walk\<close> until a token whose value is \<open>close\<close>:
  the parameters of a hardware operation (\<open>commas\<close>: a token \<open>,\<close> after a parameter is
  skipped) and the body of a function declaration. Reading \<open>token.type\<close> or
  \<open>tokens[current].value\<close> past the end of the tokens throws a \<open>TypeError\<close>.
\<close>

fun walk :: "nat \<Rightarrow> token list \<Rightarrow> node parsed"
  and walk_until :: "nat \<Rightarrow> ustring \<Rightarrow> bool \<Rightarrow> token list \<Rightarrow> node list \<Rightarrow> node list parsed" where
  "walk 0 ts = NoFuel"
| "walk (Suc n) [] = Raised TypeError"
| "walk (Suc n) (NUMBER v # ts) = Parsed (NumberLiteral v) ts"
| "walk (Suc n) (RUNE c d # ts) =
     (case ts of
        [] \<Rightarrow> Parsed (HardwareOperation (op d) (hw d) (desc d) []) []
      | t # rest \<Rightarrow>
          if token_value t = Str (asc ''('') then
            (case walk_until n (asc '')'') True rest [] of
               Parsed ps after \<Rightarrow> Parsed (HardwareOperation (op d) (hw d) (desc d) ps) (drop 1 after)
             | Raised e \<Rightarrow> Raised e
             | NoFuel \<Rightarrow> NoFuel)
          else Parsed (HardwareOperation (op d) (hw d) (desc d) []) ts)"
| "walk (Suc n) (IDENTIFIER w # ts) = Parsed (IdentifierNode (Str w)) ts"
| "walk (Suc n) (KEYWORD w # ts) =
     (if w = asc ''function'' then
        (case ts of
           [] \<Rightarrow> Raised TypeError
         | name # rest \<Rightarrow>
             (case param_names (drop 1 rest) [] of
                (ps, after) \<Rightarrow>
                  (case walk_until n (asc ''}'') False (drop 2 after) [] of
                     Parsed body after' \<Rightarrow>
                       Parsed (FunctionDeclaration (token_value name) ps body) (drop 1 after')
                   | Raised e \<Rightarrow> Raised e
                   | NoFuel \<Rightarrow> NoFuel)))
      else Parsed (Unknown (KEYWORD w)) ts)"
| "walk (Suc n) (t # ts) = Parsed (Unknown t) ts"
| "walk_until 0 close commas ts acc = NoFuel"
| "walk_until (Suc n) close commas [] acc = Parsed acc []"
| "walk_until (Suc n) close commas (t # ts) acc =
     (if token_value t = Str close then Parsed acc (t # ts)
      else case walk n (t # ts) of
             Parsed nd after \<Rightarrow>
               walk_until n close commas
                 (case after of
                    [] \<Rightarrow> []
                  | t' # rest \<Rightarrow> if commas \<and> token_value t' = Str (asc '','') then rest else after)
                 (acc @ [nd])
           | Raised e \<Rightarrow> Raised e
           | NoFuel \<Rightarrow> NoFuel)"

text \<open>The top-level loop of \<open>parse\<close>: \<open>walk\<close> until the tokens are used up.\<close>

fun parse_loop :: "nat \<Rightarrow> token list \<Rightarrow> node list \<Rightarrow> node list parsed" where
  "parse_loop fuel [] body = Parsed body []"
| "parse_loop 0 (t # ts) body = NoFuel"
| "parse_loop (Suc n) (t # ts) body =
     (case walk (Suc n) (t # ts) of
        Parsed nd after \<Rightarrow> parse_loop n after (body @ [nd])
      | Raised e \<Rightarrow> Raised e
      | NoFuel \<Rightarrow> NoFuel)"

text \<open>
  \<open>parse\<close>. Every call of \<open>walk\<close> consumes a token, so the number of tokens bounds both
  the depth of the recursion and the number of iterations.
\<close>

definition parse :: "token list \<Rightarrow> node list parsed" where
  "parse tokens = parse_loop (Suc (length tokens)) tokens []"

subsection \<open>The code generator\<close>

text \<open>
  What \<open>traverse\<close> returns: an instruction \<open>{operation, hardwareUnit, params}\<close>, a tagged
  number, variable or function, or the node itself. \<open>LFunctionName\<close> is the entry
  \<open>{type: 'function', name}\<close> that only \<open>fallbackCompile\<close> of \<open>APL\<close> makes.
\<close>

datatype lowered =
    LOp string string "lowered list"
  | LNumber real
  | LVariable tok_value
  | LFunction tok_value "tok_value list" "lowered list"
  | LNode node
  | LFunctionName ustring

record code =
  operations :: "lowered list"
  hardwareMap :: "string \<rightharpoonup> lowered list"
  executionPlan :: "lowered list"

text \<open>
  \<open>traverse\<close>: the parameters of a hardware operation are lowered first, then the
  instruction is appended to \<open>operations\<close> and to the bucket of its hardware unit.
\<close>

fun traverse :: "node \<Rightarrow> code \<Rightarrow> lowered \<times> code"
  and traverse_all :: "node list \<Rightarrow> code \<Rightarrow> lowered list \<times> code" where
  "traverse (HardwareOperation operation hardwareUnit description ps) c =
     (case traverse_all ps c of
        (lps, c1) \<Rightarrow>
          (LOp operation hardwareUnit lps,
           c1\<lparr>operations := operations c1 @ [LOp operation hardwareUnit lps],
              hardwareMap := (hardwareMap c1)(hardwareUnit \<mapsto>
                 (case hardwareMap c1 hardwareUnit of None \<Rightarrow> [] | Some bucket \<Rightarrow> bucket)
                 @ [LOp operation hardwareUnit lps])\<rparr>))"
| "traverse (NumberLiteral v) c = (LNumber v, c)"
| "traverse (IdentifierNode name) c = (LVariable name, c)"
| "traverse (FunctionDeclaration name ps body) c =
     (case traverse_all body c of (lbody, c1) \<Rightarrow> (LFunction name ps lbody, c1))"
| "traverse (Unknown t) c = (LNode (Unknown t), c)"
| "traverse_all [] c = ([], c)"
| "traverse_all (nd # nds) c =
     (case traverse nd c of
        (l, c1) \<Rightarrow> (case traverse_all nds c1 of (ls, c2) \<Rightarrow> (l # ls, c2)))"

definition generate :: "node list \<Rightarrow> code" where
  "generate body =
     (case traverse_all body \<lparr> operations = [], hardwareMap = Map.empty, executionPlan = [] \<rparr> of
        (plan, c) \<Rightarrow> c\<lparr>executionPlan := plan\<rparr>)"

subsection \<open>The pipeline\<close>

text \<open>
  What \<open>compile\<close> returns: \<open>{success: true, code, tokens, ast}\<close>, or
  \<open>{success: false, error}\<close> for an error that a stage threw. \<open>CompiledFallback\<close> is the
  result \<open>{success: true, code}\<close> of \<open>fallbackCompile\<close>, and \<open>CompileNotModelled\<close> stands for
  a result of \<open>fallbackCompile\<close> that depends on a conversion outside the model.
\<close>

datatype compiled =
    Compiled code "token list" "node list"
  | CompileError error
  | CompileNoFuel
  | CompiledFallback code
  | CompileNotModelled

definition compile :: "tables \<Rightarrow> ustring \<Rightarrow> compiled" where
  "compile tb source =
     (case parse (tokenize tb source) of
        Parsed ast rest \<Rightarrow> Compiled (generate ast) (tokenize tb source) ast
      | Raised e \<Rightarrow> CompileError e
      | NoFuel \<Rightarrow> CompileNoFuel)"

subsection \<open>APL.compile (src/unnamed/part_002)\<close>

text \<open>\<open>source.trim()\<close>: \<open>trim\<close> removes the characters that \<open>/\s/\<close> matches.\<close>

definition trim :: "ustring \<Rightarrow> ustring" where
  "trim source = rev (dropWhile isWhitespace (rev (dropWhile isWhitespace source)))"

text \<open>
  \<open>text.split(/\s+/)\<close>, with the word read so far: every run of whitespace ends a word,
  also an empty one at either end of the text.
\<close>

fun split_whitespace :: "ustring \<Rightarrow> ustring \<Rightarrow> ustring list" where
  "split_whitespace word [] = [word]"
| "split_whitespace word [c] = (if isWhitespace c then [word, []] else [word @ [c]])"
| "split_whitespace word (c # d # cs) =
     (if isWhitespace c then
        (if isWhitespace d then split_whitespace word (d # cs)
         else word # split_whitespace [] (d # cs))
      else split_whitespace (word @ [c]) (d # cs))"

text \<open>
  \<open>isNaN(token)\<close> converts the string to a number. A string with a character that occurs in
  no numeric literal (the literals are made of whitespace, digits, \<open>.\<close>, \<open>+\<close>, \<open>-\<close>, the
  exponent letters, the hexadecimal digits, the letters of the prefixes \<open>0x\<close>, \<open>0o\<close>, \<open>0b\<close>
  and the word \<open>Infinity\<close>) converts to NaN; a string of decimal digits that is not empty
  converts to a number; the conversion of any other string is outside the model (\<open>None\<close>).
\<close>

definition numericChar :: "nat \<Rightarrow> bool" where
  "numericChar c = (c \<in> set (asc ''0123456789.+-abcdefABCDEFxXoOInity'') \<or> isWhitespace c)"

definition isNaN :: "ustring \<Rightarrow> bool option" where
  "isNaN tok =
     (if list_ex (\<lambda>c. \<not> numericChar c) tok then Some True
      else if tok \<noteq> [] \<and> list_all isDigit tok then Some False
      else None)"

text \<open>
  The entries that \<open>fallbackCompile\<close> pushes for one token: \<open>{type: 'number', value:
  parseFloat(token)}\<close> when \<open>isNaN(token)\<close> is false; otherwise \<open>{type: 'function', name:
  token}\<close> when \<open>token in this.nativeFunctions\<close>, and nothing when not.
  \<open>this.nativeFunctions\<close> is a \<open>Map\<close>, and \<open>in\<close> asks whether the token names a property of
  that object (\<open>get\<close> or \<open>size\<close>, say), whatever the map holds; \<open>props\<close> is the set of these
  names.
\<close>

definition fallback_entries :: "(ustring \<Rightarrow> bool) \<Rightarrow> ustring \<Rightarrow> lowered list option" where
  "fallback_entries props tok =
     (case isNaN tok of
        None \<Rightarrow> None
      | Some False \<Rightarrow> Some [LNumber (parseFloat tok)]
      | Some True \<Rightarrow> Some (if props tok then [LFunctionName tok] else []))"

text \<open>
  \<open>fallbackCompile\<close>: the entries of the tokens of \<open>source.trim().split(/\s+/)\<close> make the
  execution plan; \<open>operations\<close> is the empty list and \<open>hardwareMap\<close> the empty object.
\<close>

definition fallbackCompile :: "(ustring \<Rightarrow> bool) \<Rightarrow> ustring \<Rightarrow> compiled" where
  "fallbackCompile props source =
     (case those (map (fallback_entries props) (split_whitespace [] (trim source))) of
        None \<Rightarrow> CompileNotModelled
      | Some entries \<Rightarrow>
          CompiledFallback \<lparr> operations = [], hardwareMap = Map.empty, executionPlan = concat entries \<rparr>)"

text \<open>
  \<open>APL.compile\<close>: the source goes through \<open>normalize\<close>, then to the method \<open>compile\<close> of
  \<open>this.compiler\<close> when \<open>typeof this.compiler.compile === 'function'\<close> (\<open>compiler\<close> is that
  method then), and to \<open>fallbackCompile\<close> otherwise (\<open>compiler\<close> is \<open>None\<close>); the result
  carries the mode as \<open>sourceMode\<close>. \<open>this.compiler\<close> is what \<open>require('./apl-compiler')\<close>
  returns. The compiler of src/src/runic-map.js assigns itself to \<open>global.APLCompiler\<close> and
  exports nothing: a module made of that code has no method \<open>compile\<close>.
\<close>

definition apl_compile ::
  "(ustring \<Rightarrow> compiled) option \<Rightarrow> (ustring \<Rightarrow> bool) \<Rightarrow> ustring \<Rightarrow> compiled \<times> string" where
  "apl_compile compiler props source =
     (case normalize source of
        (normalized, mode) \<Rightarrow>
          (case compiler of
             Some compile_method \<Rightarrow> (compile_method normalized, mode)
           | None \<Rightarrow> (fallbackCompile props normalized, mode)))"

text \<open>The lists \<open>operations\<close> and \<open>executionPlan\<close> of a compilation; none for a failed one.\<close>

fun compiled_operations :: "compiled \<Rightarrow> lowered list option" where
  "compiled_operations (Compiled c tokens ast) = Some (operations c)"
| "compiled_operations (CompiledFallback c) = Some (operations c)"
| "compiled_operations r = None"

fun compiled_plan :: "compiled \<Rightarrow> lowered list option" where
  "compiled_plan (Compiled c tokens ast) = Some (executionPlan c)"
| "compiled_plan (CompiledFallback c) = Some (executionPlan c)"
| "compiled_plan r = None"

section \<open>Programs, states and notions that the properties use\<close>

text \<open>Running one handler after another, as long as none throws.\<close>

fun and_then :: "outcome \<Rightarrow> (runtime \<Rightarrow> outcome) \<Rightarrow> outcome" where
  "and_then (Done s) f = f s"
| "and_then (Thrown e s) f = Thrown e s"
| "and_then Unmodelled f = Unmodelled"
| "and_then Exhausted f = Exhausted"

text \<open>
  The amplitude vector of length \<open>n\<close> that is \<open>{real: 1, imag: 0}\<close> at index \<open>k\<close> and
  \<open>{real: 0, imag: 0}\<close> elsewhere.
\<close>

definition one_hot :: "nat \<Rightarrow> nat \<Rightarrow> amp list" where
  "one_hot n k = map (\<lambda>i. if i = k then amp_one else amp_zero) [0..<n]"

text \<open>
  The two combinations that the Hadamard gate writes, and the vector that it produces for
  target 0: the sum at every even index, the difference at every odd one.
\<close>

definition h_plus :: "amp \<Rightarrow> amp \<Rightarrow> amp" where
  "h_plus a b =
     \<lparr> amp_real = (amp_real a + amp_real b) / sqrt 2, amp_imag = (amp_imag a + amp_imag b) / sqrt 2 \<rparr>"

definition h_minus :: "amp \<Rightarrow> amp \<Rightarrow> amp" where
  "h_minus a b =
     \<lparr> amp_real = (amp_real a - amp_real b) / sqrt 2, amp_imag = (amp_imag a - amp_imag b) / sqrt 2 \<rparr>"

definition h_all :: "amp list \<Rightarrow> amp list" where
  "h_all amps =
     map (\<lambda>k. if even k then h_plus (amps ! k) (amps ! Suc k) else h_minus (amps ! (k - 1)) (amps ! k))
       [0..<length amps]"

text \<open>The source \<open>q = Q.super(2)\<close>.\<close>

definition q_super_source :: ustring where
  "q_super_source = asc ''q = Q.super(2)''"

text \<open>
  A caller with \<open>x = 1\<close> in memory and 5 on the stack, and a function \<open>f(a)\<close> in the
  function table.
\<close>

definition call_state :: runtime where
  "call_state =
     new_runtime\<lparr>memory := [''x'' \<mapsto> VNum (Fin 1)], stack := [VNum (Fin 5)],
                 functionsMap := [''f'' \<mapsto> Func [''a''] 1 False]\<rparr>"

text \<open>
  The declaration of \<open>add(a, b)\<close> with the body \<open>return a + b\<close>, then the call
  \<open>add(5, 3)\<close>.
\<close>

definition add_program :: "instruction list" where
  "add_program =
     [FUNC_DECL ''add'' [''a'', ''b''] False, MEM_LOAD ''a'', MEM_LOAD ''b'', ADD, RETURN,
      PUSH_CONST (VNum (Fin 5)), PUSH_CONST (VNum (Fin 3)), CALL ''add'' 2]"

text \<open>A loop of \<open>i\<close> over \<open>0..3\<close> whose body stores \<open>i\<close> into \<open>slot\<close>.\<close>

definition loop_program :: "instruction list" where
  "loop_program =
     [LOOP ''i'' (CallExpression (VStr ''..'') [Literal (VNum (Fin 0)), Literal (VNum (Fin 3))]),
      MEM_LOAD ''i'', MEM_STORE ''slot'', LOOP_END]"

text \<open>A runtime with \<open>x = 0\<close> in memory and no globals.\<close>

definition zero_state :: runtime where
  "zero_state = new_runtime\<lparr>memory := [''x'' \<mapsto> VNum (Fin 0)]\<rparr>"

text \<open>
  A program that leaves NaN and 2 on the stack (\<open>add\<close> pops 1 and, from the stack that is
  empty by then, \<open>undefined\<close>), and the same program followed by \<open>div\<close>.
\<close>

definition nan_program :: "instruction list" where
  "nan_program = [PUSH_CONST (VNum (Fin 1)), ADD, PUSH_CONST (VNum (Fin 2))]"

definition nan_div_program :: "instruction list" where
  "nan_div_program = nan_program @ [DIV]"

text \<open>
  The largest power of two among the doubles, \<open>2 ** 1023\<close>, and the program
  \<open>push 2 ** 1023; push 0.5; div\<close>.
\<close>

definition huge :: real where
  "huge = 2 ^ 1023"

definition overflow_div_program :: "instruction list" where
  "overflow_div_program = [PUSH_CONST (VNum (Fin huge)), PUSH_CONST (VNum (Fin (1 / 2))), DIV]"

text \<open>
  A new runtime whose field \<open>bytecode\<close> a caller of the class has set to the program
  \<open>bc\<close>.
\<close>

definition with_bytecode :: "instruction list \<Rightarrow> runtime" where
  "with_bytecode bc = new_runtime\<lparr>this_bytecode := Some bc\<rparr>"

text \<open>A loop of \<open>i\<close> over \<open>1..4\<close> whose body stores \<open>i\<close> into \<open>slot\<close>.\<close>

definition loop_from_one_program :: "instruction list" where
  "loop_from_one_program =
     [LOOP ''i'' (CallExpression (VStr ''..'') [Literal (VNum (Fin 1)), Literal (VNum (Fin 4))]),
      MEM_LOAD ''i'', MEM_STORE ''slot'', LOOP_END]"

section \<open>Properties of the compiler\<close>

lemmas tokenizer_defs =
  asc_def isWhitespace_def isDigit_def isAlpha_def isKeyword_def parseFloat_def digits_value_def
  typeChar_def numChar_def wordChar_def

lemma tokenize_q_super:
  assumes "\<forall>c<128. map_of (runicAlphabet tb) [c] = None \<and> [c] \<notin> set (typeLeads tb)"
  shows "tokenize tb q_super_source =
     [IDENTIFIER (asc ''q''), OPERATOR (of_char CHR ''=''), IDENTIFIER (asc ''Q''),
      IDENTIFIER (asc ''super''), DELIMITER (of_char CHR ''(''), NUMBER 2,
      DELIMITER (of_char CHR '')'')]"
proof -
  have a: "map_of (runicAlphabet tb) [c] = None" if "c < 128" for c
    using assms that by simp
  have b: "([c] \<in> set (typeLeads tb)) = False" if "c < 128" for c
    using assms that by simp
  show ?thesis
    by (simp add: q_super_source_def tokenizer_defs a b)
qed

lemma parse_q_super:
  "parse [IDENTIFIER (asc ''q''), OPERATOR (of_char CHR ''=''), IDENTIFIER (asc ''Q''),
          IDENTIFIER (asc ''super''), DELIMITER (of_char CHR ''(''), NUMBER 2,
          DELIMITER (of_char CHR '')'')] =
   Parsed [IdentifierNode (Str (asc ''q'')), Unknown (OPERATOR (of_char CHR ''='')),
           IdentifierNode (Str (asc ''Q'')), IdentifierNode (Str (asc ''super'')),
           Unknown (DELIMITER (of_char CHR ''('')), NumberLiteral 2,
           Unknown (DELIMITER (of_char CHR '')''))] []"
  by (simp add: parse_def)

lemma toRunic_q_super: "toRunic q_super_source = asc ''q = '' @ [0x16E9] @ asc ''(2)''"
  by (simp add: q_super_source_def toRunic_def sortedKeys_def asciiToRunic_def asc_def
      replace_key_def split_def)

lemma tokenize_rune_spelling:
  "tokenize rune_tables (asc ''q = '' @ [0x16E9] @ asc ''(2)'') =
     [IDENTIFIER (asc ''q''), OPERATOR (of_char CHR ''=''),
      RUNE 0x16E9 (OpDesc ''QUANTUM_SUPERPOSITION'' ''QFU'' ''Quantum Superposition Engine''),
      DELIMITER (of_char CHR ''(''), NUMBER 2, DELIMITER (of_char CHR '')'')]"
  by (simp add: rune_tables_def tokenizer_defs)

text \<open>
  With the keys of the tables read as runes, the rune spelling that \<open>toRunic\<close> gives for
  \<open>q = Q.super(2)\<close> compiles to one instruction.
\<close>

lemma compile_rune_spelling:
  "compiled_operations (compile rune_tables (toRunic q_super_source)) =
     Some [LOp ''QUANTUM_SUPERPOSITION'' ''QFU'' [LNumber 2]]
   \<and> compiled_plan (compile rune_tables (toRunic q_super_source)) =
     Some [LVariable (Str (asc ''q'')), LNode (Unknown (OPERATOR (of_char CHR ''=''))),
           LOp ''QUANTUM_SUPERPOSITION'' ''QFU'' [LNumber 2]]"
  unfolding compile_def toRunic_q_super tokenize_rune_spelling
  by (simp add: parse_def generate_def asc_def)

text \<open>
  With the tables as the file has them, no key is a single code unit: the tokenizer finds
  neither a rune nor a data type in any text, and it skips the rune of the rune spelling of
  \<open>q = Q.super(2)\<close>, which compiles to no instruction.
\<close>

lemma file_tables_keys:
  "map_of (runicAlphabet file_tables) [c] = None \<and> [c] \<notin> set (typeLeads file_tables)"
  by (simp add: file_tables_def)

lemma tokenize_file_rune_spelling:
  "tokenize file_tables (asc ''q = '' @ [0x16E9] @ asc ''(2)'') =
     [IDENTIFIER (asc ''q''), OPERATOR (of_char CHR ''=''),
      DELIMITER (of_char CHR ''(''), NUMBER 2, DELIMITER (of_char CHR '')'')]"
  by (simp add: file_tables_keys tokenizer_defs)

lemma compile_file_rune_spelling:
  "compiled_operations (compile file_tables (toRunic q_super_source)) = Some []
   \<and> compiled_plan (compile file_tables (toRunic q_super_source)) =
     Some [LVariable (Str (asc ''q'')), LNode (Unknown (OPERATOR (of_char CHR ''=''))),
           LNode (Unknown (DELIMITER (of_char CHR ''(''))), LNumber 2,
           LNode (Unknown (DELIMITER (of_char CHR '')'')))]"
  unfolding compile_def toRunic_q_super tokenize_file_rune_spelling
  by (simp add: parse_def generate_def asc_def)

text \<open>
  \<open>fallbackCompile\<close> on \<open>q = Q.super(2)\<close>: the tokens are \<open>q\<close>, \<open>=\<close> and \<open>Q.super(2)\<close>, none of
  them is a number, and the execution plan holds those of them that name a property of the
  \<open>Map\<close>.
\<close>

lemma fallback_q_super:
  "fallbackCompile props q_super_source =
     CompiledFallback \<lparr> operations = [], hardwareMap = Map.empty,
       executionPlan = concat (map (\<lambda>tok. if props tok then [LFunctionName tok] else [])
                                  [asc ''q'', asc ''='', asc ''Q.super(2)'']) \<rparr>"
  by (simp add: fallbackCompile_def q_super_source_def trim_def fallback_entries_def isNaN_def
      numericChar_def tokenizer_defs)

text \<open>
  Claim C1 (the ASCII and the rune spelling compile to the same operations and execution
  plan; \<open>q = Q.super(2)\<close> compiles to one QUANTUM_SUPERPOSITION instruction of category
  QFU with the parameter 2). The code does otherwise at \<open>q = Q.super(2)\<close>: \<open>normalize\<close>
  hands the ASCII text to the compiler as it is, the tokenizer reads \<open>Q\<close> and \<open>super\<close> as
  identifiers and skips the dot, and the compilation yields no instruction at all, with an
  execution plan of seven entries. This holds for every reading of the keys of the
  compiler's tables in which no key is a single ASCII character. \<open>APL.compile\<close> returns
  that compilation when the compiler object has the method \<open>compile\<close>, and otherwise the
  result of \<open>fallbackCompile\<close>, whose list of operations is empty as well.
\<close>

theorem ascii_q_super_compiles_to_no_operation:
  assumes "\<forall>c<128. map_of (runicAlphabet tb) [c] = None \<and> [c] \<notin> set (typeLeads tb)"
  shows "compiled_operations (compile tb q_super_source) = Some []
    \<and> compiled_plan (compile tb q_super_source) =
        Some [LVariable (Str (asc ''q'')), LNode (Unknown (OPERATOR (of_char CHR ''=''))),
              LVariable (Str (asc ''Q'')), LVariable (Str (asc ''super'')),
              LNode (Unknown (DELIMITER (of_char CHR ''(''))), LNumber 2,
              LNode (Unknown (DELIMITER (of_char CHR '')'')))]
    \<and> fst (apl_compile (Some (compile tb)) props q_super_source) = compile tb q_super_source
    \<and> compiled_operations (fst (apl_compile None props q_super_source)) = Some []"
proof -
  have "fst (apl_compile (Some (compile tb)) props q_super_source) = compile tb q_super_source"
    by (simp add: apl_compile_def normalize_def)
  moreover have "compiled_operations (fst (apl_compile None props q_super_source)) = Some []"
    by (simp add: apl_compile_def normalize_def fallback_q_super)
  moreover have "compile tb q_super_source =
      Compiled (generate [IdentifierNode (Str (asc ''q'')), Unknown (OPERATOR (of_char CHR ''='')),
           IdentifierNode (Str (asc ''Q'')), IdentifierNode (Str (asc ''super'')),
           Unknown (DELIMITER (of_char CHR ''('')), NumberLiteral 2,
           Unknown (DELIMITER (of_char CHR '')''))])
        (tokenize tb q_super_source)
        [IdentifierNode (Str (asc ''q'')), Unknown (OPERATOR (of_char CHR ''='')),
           IdentifierNode (Str (asc ''Q'')), IdentifierNode (Str (asc ''super'')),
           Unknown (DELIMITER (of_char CHR ''('')), NumberLiteral 2,
           Unknown (DELIMITER (of_char CHR '')''))]"
    unfolding compile_def tokenize_q_super [OF assms] parse_q_super by simp
  ultimately show ?thesis
    by (simp add: generate_def)
qed

text \<open>
  Claim C1, at the tables whose keys are the runes (no key is an ASCII character): the
  ASCII source compiles to an empty list of operations, and both its operations and its
  execution plan differ from those of the rune spelling that \<open>toRunic\<close> gives. At the tables
  as the file has them, the ASCII source and the rune spelling both compile to an empty
  list of operations, and their execution plans differ. Through \<open>fallbackCompile\<close>, with a
  \<open>Map\<close> of which no token names a property, the list of operations is empty.
\<close>

theorem ascii_q_super_compiles_to_no_operation_witness:
  "compiled_operations (compile rune_tables q_super_source) = Some []
   \<and> compiled_operations (compile rune_tables q_super_source)
       \<noteq> compiled_operations (compile rune_tables (toRunic q_super_source))
   \<and> compiled_plan (compile rune_tables q_super_source)
       \<noteq> compiled_plan (compile rune_tables (toRunic q_super_source))
   \<and> compiled_operations (compile file_tables q_super_source) = Some []
   \<and> compiled_operations (compile file_tables (toRunic q_super_source)) = Some []
   \<and> compiled_plan (compile file_tables q_super_source)
       \<noteq> compiled_plan (compile file_tables (toRunic q_super_source))
   \<and> compiled_operations (fst (apl_compile None (\<lambda>tok. False) q_super_source)) = Some []"
proof -
  have h: "\<forall>c<128. map_of (runicAlphabet rune_tables) [c] = None \<and> [c] \<notin> set (typeLeads rune_tables)"
    by (simp add: rune_tables_def)
  have k: "\<forall>c<128. map_of (runicAlphabet file_tables) [c] = None \<and> [c] \<notin> set (typeLeads file_tables)"
    by (simp add: file_tables_keys)
  from ascii_q_super_compiles_to_no_operation [OF h, of "\<lambda>tok. False"]
    ascii_q_super_compiles_to_no_operation [OF k, of "\<lambda>tok. False"]
    compile_rune_spelling compile_file_rune_spelling
  show ?thesis by simp
qed

section \<open>Properties of the runtime\<close>

subsection \<open>Rounding to a double\<close>

text \<open>
  A real that is an integer multiple of its own spacing, and below \<open>2 ^ 1024\<close> in
  magnitude, is a double: rounding leaves it unchanged. So are the powers of two up to
  \<open>2 ^ 1023\<close>, the integers up to \<open>2 ^ 53\<close> in magnitude, and one half. A real of magnitude
  \<open>2 ^ 1024\<close> or more rounds to an infinity, and rounding never gives NaN.
\<close>

lemma round_half_even_int: "round_half_even (of_int z) = z"
  by (simp add: round_half_even_def)

lemma double_ulp_pos: "0 < double_ulp x"
  by (simp add: double_ulp_def)

lemma round_double_exact:
  assumes "x / double_ulp x = of_int z" and "\<bar>x\<bar> < 2 ^ max_exponent"
  shows "round_double x = Fin x"
proof -
  have "of_int z * double_ulp x = x"
    using assms(1) double_ulp_pos [of x] by (simp add: field_simps)
  then show ?thesis
    using assms by (simp add: round_double_def round_half_even_int)
qed

lemma double_ulp_power: "double_ulp (2 ^ n) = 2 powr (real n - 52)"
  by (simp add: double_ulp_def log_nat_power)

lemma round_double_power:
  "round_double (2 ^ n) = (if n < max_exponent then Fin (2 ^ n) else PInf)"
proof -
  have q: "(2::real) ^ n / double_ulp (2 ^ n) = of_int (2 ^ 52)"
    by (simp add: double_ulp_power powr_diff powr_realpow)
  then have r: "of_int (round_half_even ((2::real) ^ n / double_ulp (2 ^ n))) * double_ulp (2 ^ n) = 2 ^ n"
    by (simp only: round_half_even_int) (simp add: double_ulp_power powr_diff powr_realpow)
  have "((2::real) ^ max_exponent \<le> 2 ^ n) = (max_exponent \<le> n)"
    by (rule power_increasing_iff) simp
  then show ?thesis
    unfolding round_double_def r by auto
qed

lemma round_double_int:
  assumes "\<bar>k\<bar> \<le> 2 ^ 53"
  shows "round_double (of_int k) = Fin (of_int k)"
proof (cases "k = 0")
  case True
  then show ?thesis by (simp add: round_double_def)
next
  case False
  define e where "e = \<lfloor>log 2 \<bar>real_of_int k\<bar>\<rfloor>"
  from False have "1 \<le> \<bar>k\<bar>" by simp
  then have "real_of_int 1 \<le> real_of_int \<bar>k\<bar>" by (simp only: of_int_le_iff)
  then have k1: "1 \<le> \<bar>real_of_int k\<bar>" by simp
  from assms have "real_of_int \<bar>k\<bar> \<le> real_of_int (2 ^ 53)" by (simp only: of_int_le_iff)
  then have kb: "\<bar>real_of_int k\<bar> \<le> 2 ^ 53" by simp
  have "0 \<le> log 2 \<bar>real_of_int k\<bar>" using k1 by simp
  then have e0: "0 \<le> e" unfolding e_def by simp
  have "2 powr of_int e \<le> 2 powr log 2 \<bar>real_of_int k\<bar>"
    unfolding e_def by (rule powr_mono) simp_all
  then have powr_e: "2 powr of_int e \<le> \<bar>real_of_int k\<bar>"
    using k1 by simp
  have ulp: "double_ulp (of_int k) = 2 powr (of_int e - 52)"
    using e0 by (simp add: double_ulp_def e_def max_def)
  have lt: "\<bar>real_of_int k\<bar> < 2 ^ max_exponent"
  proof -
    have "(2::real) ^ 53 < 2 ^ max_exponent"
      by (rule power_strict_increasing) (simp_all add: max_exponent_def)
    with kb show ?thesis by linarith
  qed
  have "\<exists>z. real_of_int k / double_ulp (of_int k) = of_int z"
  proof (cases "e \<le> 52")
    case True
    then have "52 - real_of_int e = real (nat (52 - e))" by simp
    then have "2 powr (52 - of_int e) = (2::real) powr real (nat (52 - e))" by (simp only:)
    also have "\<dots> = 2 ^ nat (52 - e)" by (rule powr_realpow) simp
    finally have "2 powr (52 - of_int e) = (2::real) ^ nat (52 - e)" .
    then have "real_of_int k / double_ulp (of_int k) = of_int (k * 2 ^ nat (52 - e))"
      by (simp add: ulp powr_diff field_simps)
    then show ?thesis by blast
  next
    case False
    then have "53 \<le> e" by simp
    then have "(53::real) \<le> of_int e" by simp
    then have "(2::real) powr 53 \<le> 2 powr of_int e" by (rule powr_mono) simp
    with powr_e have "(2::real) ^ 53 \<le> \<bar>real_of_int k\<bar>" by simp
    with kb have ak: "\<bar>real_of_int k\<bar> = 2 ^ 53" by linarith
    have "log 2 ((2::real) ^ 53) = 53" by (simp only: log_nat_power [of 2 2 53]) simp
    then have "\<lfloor>log 2 ((2::real) ^ 53)\<rfloor> = 53" by (simp only:) simp
    then have e53: "e = 53" unfolding e_def by (simp only: ak)
    have u1: "double_ulp (of_int k) = 2" by (simp add: ulp e53)
    have "real_of_int k = 2 ^ 53 \<or> real_of_int k = - (2 ^ 53)" using ak by linarith
    then show ?thesis
    proof
      assume rk: "real_of_int k = 2 ^ 53"
      have "real_of_int k / double_ulp (of_int k) = of_int (2 ^ 52)"
        unfolding u1 by (simp add: rk)
      then show ?thesis by blast
    next
      assume rk: "real_of_int k = - (2 ^ 53)"
      have "real_of_int k / double_ulp (of_int k) = of_int (- (2 ^ 52))"
        unfolding u1 by (simp add: rk)
      then show ?thesis by blast
    qed
  qed
  then obtain z where "real_of_int k / double_ulp (of_int k) = of_int z" by blast
  from round_double_exact [OF this lt] show ?thesis .
qed


lemma round_half_even_ge: "of_int z \<le> q \<Longrightarrow> z \<le> round_half_even q"
  by (simp add: round_half_even_def le_floor_iff) linarith

lemma round_half_even_le: "q \<le> of_int z \<Longrightarrow> round_half_even q \<le> z"
proof -
  assume a: "q \<le> of_int z"
  then have f: "\<lfloor>q\<rfloor> \<le> z" by (simp add: floor_le_iff) 
  show ?thesis
  proof (cases "\<lfloor>q\<rfloor> = z")
    case True
    then have "q - of_int \<lfloor>q\<rfloor> \<le> 0" using a by simp
    then show ?thesis using f by (simp add: round_half_even_def)
  next
    case False
    then have "\<lfloor>q\<rfloor> + 1 \<le> z" using f by simp
    then show ?thesis using f by (simp add: round_half_even_def)
  qed
qed

lemma round_double_overflow:
  assumes "2 ^ max_exponent \<le> \<bar>x\<bar>"
  shows "round_double x = (if x < 0 then NInf else PInf)"
proof -
  define e where "e = \<lfloor>log 2 \<bar>x\<bar>\<rfloor>"
  define u where "u = double_ulp x"
  have pos: "(0::real) < 2 ^ max_exponent" by simp
  with assms have ax: "0 < \<bar>x\<bar>" by linarith
  then have x0: "x \<noteq> 0" by simp
  have "log 2 (2 ^ max_exponent) \<le> log 2 \<bar>x\<bar>"
    using assms pos ax by (simp only: log_le_cancel_iff) 
  then have "real max_exponent \<le> log 2 \<bar>x\<bar>" by (simp add: log_nat_power)
  then have e_ge: "int max_exponent \<le> e" by (simp add: e_def le_floor_iff)
  have u: "u = 2 powr (of_int e - 52)"
    using e_ge by (simp add: u_def double_ulp_def e_def max_def max_exponent_def)
  have upos: "0 < u" by (simp add: u)
  have "2 powr of_int e \<le> 2 powr log 2 \<bar>x\<bar>"
    unfolding e_def by (rule powr_mono) simp_all
  then have powr_e: "2 powr of_int e \<le> \<bar>x\<bar>" using ax by simp
  have pe: "(2::real) powr of_int e = of_int (2 ^ 52) * u"
    by (simp add: u powr_diff)
  have "(2::real) powr real max_exponent \<le> 2 powr of_int e"
    by (rule powr_mono) (use e_ge in simp_all)
  then have big: "(2::real) ^ max_exponent \<le> of_int (2 ^ 52) * u"
    by (simp only: pe powr_realpow [of 2 max_exponent, simplified])
  have r: "of_int (2 ^ 52) \<le> \<bar>real_of_int (round_half_even (x / u))\<bar>"
  proof (cases "x < 0")
    case True
    then have "of_int (2 ^ 52) * u \<le> - x" using powr_e pe by simp
    then have "x / u \<le> of_int (- (2 ^ 52))" using upos by (simp add: field_simps)
    then have "round_half_even (x / u) \<le> - (2 ^ 52)" by (rule round_half_even_le)
    then have "real_of_int (round_half_even (x / u)) \<le> real_of_int (- (2 ^ 52))"
      by (simp only: of_int_le_iff)
    then show ?thesis by simp
  next
    case False
    then have "of_int (2 ^ 52) * u \<le> x" using powr_e pe by simp
    then have "of_int (2 ^ 52) \<le> x / u" using upos by (simp add: field_simps)
    then have "2 ^ 52 \<le> round_half_even (x / u)" by (rule round_half_even_ge)
    then have "real_of_int (2 ^ 52) \<le> real_of_int (round_half_even (x / u))"
      by (simp only: of_int_le_iff)
    then show ?thesis by simp
  qed
  have "of_int (2 ^ 52) * u \<le> \<bar>real_of_int (round_half_even (x / u))\<bar> * u"
    using r upos by (simp only: mult_le_cancel_right_pos)
  with big have "2 ^ max_exponent \<le> \<bar>real_of_int (round_half_even (x / u))\<bar> * u" by linarith
  then have "2 ^ max_exponent \<le> \<bar>real_of_int (round_half_even (x / u)) * u\<bar>"
    using upos by (simp add: abs_mult)
  then show ?thesis
    using x0 unfolding round_double_def u_def by simp
qed

lemma round_double_not_nan: "round_double x \<noteq> NaN"
  by (simp add: round_double_def)

lemma round_double_half: "round_double (1 / 2) = Fin (1 / 2)"
proof -
  have "log 2 (1 / 2) = - 1" by (simp add: log_divide)
  then have "double_ulp (1 / 2) = 2 powr (- 53)"
    by (simp add: double_ulp_def)
  then have "(1 / 2) / double_ulp (1 / 2) = of_int (2 ^ 52)"
    by (simp add: powr_minus field_simps)
  moreover have "\<bar>1 / 2 :: real\<bar> < 2 ^ max_exponent"
  proof -
    have "(1::real) \<le> 2 ^ max_exponent" by simp
    moreover have "\<bar>1 / 2 :: real\<bar> = 1 / 2" by simp
    ultimately show ?thesis by linarith
  qed
  ultimately show ?thesis by (rule round_double_exact)
qed

lemma round_double_numeral [simp]:
  "numeral n \<le> (2::int) ^ 53 \<Longrightarrow> round_double (numeral n) = Fin (numeral n)"
  using round_double_int [of "numeral n"] by simp

lemma round_double_neg_numeral [simp]:
  "numeral n \<le> (2::int) ^ 53 \<Longrightarrow> round_double (- numeral n) = Fin (- numeral n)"
  using round_double_int [of "- numeral n"] by simp

lemma round_double_0 [simp]: "round_double 0 = Fin 0"
  by (simp add: round_double_def)

lemma round_double_1 [simp]: "round_double 1 = Fin 1"
  using round_double_int [of 1] by simp

lemma math_pow2_nat:
  "math_pow2 (Fin (real n)) = (if n < max_exponent then Fin (2 ^ n) else PInf)"
  by (simp add: powr_realpow round_double_power)

lemma div_huge_half: "num_div (Fin huge) (Fin (1 / 2)) = PInf"
proof -
  have h: "huge / (1 / 2) = 2 ^ max_exponent"
    unfolding huge_def max_exponent_def by simp
  have "round_double (huge / (1 / 2)) = PInf"
    by (simp only: h round_double_power) simp
  then show ?thesis by (simp del: divide_divide_eq_left divide_divide_eq_right)
qed

lemma round_double_huge: "round_double huge = Fin huge"
  unfolding huge_def by (subst round_double_power) (simp add: max_exponent_def)

subsection \<open>Popping an empty stack\<close>

lemmas arith_defs =
  opAdd_def opSub_def opMul_def opDiv_def binop_def pop_def push_def
  js_add_def js_sub_def js_mul_def js_div_def js_arith_def num_sub_def

text \<open>
  Claim C2 (an instruction that pops the empty evaluation stack is a fatal fault: the run
  returns \<open>{success: false, error, pc}\<close>) fails on the program that is the single
  instruction \<open>add\<close>, run on a new runtime: both pops return \<open>undefined\<close>, NaN is pushed
  and the run returns \<open>{success: true, result: NaN}\<close>.
\<close>

theorem add_on_empty_stack_succeeds:
  "execute 1 no_randoms [ADD] new_runtime =
     Finished (Success (VNum NaN)) (new_runtime\<lparr>stack := [VNum NaN], pc := 1, running := True\<rparr>)"
  by (simp add: execute_def new_runtime_def arith_defs)

text \<open>
  Claim C2 as amended: popping the empty evaluation stack is not a fault. The pop returns
  \<open>undefined\<close> and leaves the stack empty; on an empty stack \<open>add\<close>, \<open>sub\<close>, \<open>mul\<close> and
  \<open>div\<close> push NaN and \<open>store\<close> binds its target to \<open>undefined\<close>; and the run goes on with
  the next instruction.
\<close>

theorem pop_on_empty_stack_continues:
  assumes "stack s = []"
  shows "pop s = (VUndefined, s)
    \<and> opAdd s = Done (s\<lparr>stack := [VNum NaN]\<rparr>)
    \<and> opSub s = Done (s\<lparr>stack := [VNum NaN]\<rparr>)
    \<and> opMul s = Done (s\<lparr>stack := [VNum NaN]\<rparr>)
    \<and> opDiv s = Done (s\<lparr>stack := [VNum NaN]\<rparr>)
    \<and> opMemStore target s = Done (s\<lparr>memory := (memory s)(target \<mapsto> VUndefined)\<rparr>)
    \<and> (0 \<le> pc s \<and> nat (pc s) < length bytecode \<and> running s
         \<and> bytecode ! nat (pc s) \<in> {ADD, SUB, MUL, DIV} \<longrightarrow>
        execute_loop (Suc n) randoms bytecode s =
          execute_loop n randoms bytecode (s\<lparr>stack := [VNum NaN], pc := pc s + 1\<rparr>))
    \<and> (0 \<le> pc s \<and> nat (pc s) < length bytecode \<and> running s
         \<and> bytecode ! nat (pc s) = MEM_STORE target \<longrightarrow>
        execute_loop (Suc n) randoms bytecode s =
          execute_loop n randoms bytecode
            (s\<lparr>memory := (memory s)(target \<mapsto> VUndefined), pc := pc s + 1\<rparr>))"
  using assms by (auto simp add: arith_defs opMemStore_def)

text \<open>Claim C2 as amended, at the new runtime, for \<open>add\<close> and for \<open>store\<close> into \<open>x\<close>.\<close>

theorem pop_on_empty_stack_continues_witness:
  "stack new_runtime = []
   \<and> opAdd new_runtime = Done (new_runtime\<lparr>stack := [VNum NaN]\<rparr>)
   \<and> opMemStore ''x'' new_runtime = Done (new_runtime\<lparr>memory := [''x'' \<mapsto> VUndefined]\<rparr>)"
proof -
  have h: "stack new_runtime = []" by (simp add: new_runtime_def)
  have m: "memory new_runtime = Map.empty" by (simp add: new_runtime_def)
  from pop_on_empty_stack_continues [OF h, of "''x''"] h m show ?thesis by simp
qed

subsection \<open>Calls\<close>

lemma pop_args_take:
  "n \<le> length (stack s) \<Longrightarrow>
   pop_args n args s = (rev (take n (stack s)) @ args, s\<lparr>stack := drop n (stack s)\<rparr>)"
proof (induction n arbitrary: args s)
  case 0
  then show ?case by simp
next
  case (Suc n)
  then obtain v rest where st: "stack s = v # rest"
    by (cases "stack s") auto
  with Suc.prems have "n \<le> length (stack (s\<lparr>stack := rest\<rparr>))" by simp
  from Suc.IH [OF this] st show ?case
    by (simp add: pop_def)
qed

lemma bind_params_upds:
  "length ps = length args \<Longrightarrow> bind_params ps args m = m(ps [\<mapsto>] args)"
  by (induction ps args m rule: bind_params.induct) simp_all

text \<open>
  Claim C3 (after a call the current memory is a fresh map with exactly the parameters,
  and no binding of the caller) fails for a caller with \<open>x = 1\<close> in memory that calls
  \<open>f(a)\<close> with 5: the memory after the call binds \<open>a\<close> to 5 and still binds \<open>x\<close> to 1.
\<close>

theorem call_keeps_caller_bindings:
  "opCall ''f'' 1 call_state =
     Done (call_state\<lparr>callStack := [Frame 0 [''x'' \<mapsto> VNum (Fin 1)]], stack := [],
             memory := [''x'' \<mapsto> VNum (Fin 1), ''a'' \<mapsto> VNum (Fin 5)], pc := 0\<rparr>)
   \<and> [''x'' \<mapsto> VNum (Fin 1), ''a'' \<mapsto> VNum (Fin 5)] \<noteq> [''a'' \<mapsto> VNum (Fin 5)]"
proof -
  have "[''x'' \<mapsto> VNum (Fin 1), ''a'' \<mapsto> VNum (Fin 5)] ''x'' \<noteq> [''a'' \<mapsto> VNum (Fin 5)] ''x''"
    by simp
  then have "[''x'' \<mapsto> VNum (Fin 1), ''a'' \<mapsto> VNum (Fin 5)] \<noteq> [''a'' \<mapsto> VNum (Fin 5)]"
    by metis
  then show ?thesis
    by (simp add: opCall_def call_state_def new_runtime_def pop_def)
qed

text \<open>
  Claim C3 as amended: for a \<open>call\<close> of a defined callee with N parameters, executed with
  N as its argument count and at least N values on the stack, the memory right after the
  call is the caller's memory updated with the N parameter names, bound in order to the
  N popped arguments in the order they were pushed (a binding of the caller that no
  parameter overwrites stays visible); the caller's whole memory is saved, with the
  caller's \<open>pc\<close>, in the frame pushed on the call stack, and \<open>pc\<close> is the entry address
  minus one.
\<close>

theorem call_binds_params_over_caller_memory:
  assumes "functionsMap s fname = Some f" and "length (params f) = n" and "n \<le> length (stack s)"
  shows "opCall fname n s =
     Done (s\<lparr>callStack := Frame (pc s) (memory s) # callStack s,
             stack := drop n (stack s),
             memory := (memory s)(params f [\<mapsto>] rev (take n (stack s))),
             pc := address f - 1\<rparr>)"
  using assms by (simp add: opCall_def pop_args_take bind_params_upds)

text \<open>Claim C3 as amended, at the caller with \<open>x = 1\<close> that calls \<open>f(a)\<close> with 5.\<close>

theorem call_binds_params_over_caller_memory_witness:
  "functionsMap call_state ''f'' = Some (Func [''a''] 1 False)
   \<and> length (params (Func [''a''] 1 False)) = 1 \<and> 1 \<le> length (stack call_state)
   \<and> opCall ''f'' 1 call_state =
       Done (call_state\<lparr>callStack := [Frame 0 [''x'' \<mapsto> VNum (Fin 1)]], stack := [],
               memory := [''x'' \<mapsto> VNum (Fin 1), ''a'' \<mapsto> VNum (Fin 5)], pc := 0\<rparr>)"
proof -
  have h1: "functionsMap call_state ''f'' = Some (Func [''a''] 1 False)"
    by (simp add: call_state_def new_runtime_def)
  have h2: "length (params (Func [''a''] 1 False)) = 1" by simp
  have h3: "1 \<le> length (stack call_state)" by (simp add: call_state_def)
  from call_binds_params_over_caller_memory [OF h1 h2 h3] h1 h2 h3 show ?thesis
    by (simp add: call_state_def new_runtime_def)
qed

subsection \<open>Function declarations and loops\<close>

text \<open>
  Claim C4 (the program that declares \<open>add(a, b)\<close> with the body \<open>return a + b\<close> and
  calls it with 5 and 3 completes with 8 on the stack and the caller's memory restored).
  The code does otherwise: \<open>opFuncDecl\<close> registers the function and then reads
  \<open>this.bytecode.length\<close>, where \<open>this.bytecode\<close> is \<open>undefined\<close>, so the run returns
  \<open>{success: false, pc: 0}\<close> with a \<open>TypeError\<close> at the declaration, whatever the fuel.
\<close>

lemma skip_function_body:
  "skip_block (OpStr ''FUNC_DECL'') (OpNum 19) add_program 1 (s\<lparr>pc := 0\<rparr>) = Done (s\<lparr>pc := 4\<rparr>)"
  by (simp add: skip_block.simps add_program_def)

text \<open>
  With the field \<open>bytecode\<close> of the runtime set to the program, the program that declares
  \<open>add(a, b)\<close> and calls it with 5 and 3 does what claim C4 says: the run succeeds, 8 is on
  top of the stack after the \<open>return\<close> (the \<open>return\<close> pushes the top of the stack
  again), and the memory is the empty memory of before the call.
\<close>

lemma function_program_with_bytecode_assigned:
  "execute 8 no_randoms add_program (with_bytecode add_program) =
     Finished (Success (VNum (Fin 8)))
       (with_bytecode add_program\<lparr>running := True, pc := 8,
          stack := [VNum (Fin 8), VNum (Fin 8)], memory := Map.empty,
          functionsMap := [''add'' \<mapsto> Func [''a'', ''b''] 1 False]\<rparr>)"
  by (simp add: execute_def with_bytecode_def new_runtime_def add_program_def opFuncDecl_def
      skip_block.simps opCall_def opReturn_def opMemLoad_def map_get_def js_or_def arith_defs
      eval_nat_numeral Let_def)

theorem function_program_faults_at_declaration:
  "execute (Suc n) randoms add_program new_runtime =
     Finished (Failure TypeError 0)
       (new_runtime\<lparr>running := True, functionsMap := [''add'' \<mapsto> Func [''a'', ''b''] 1 False]\<rparr>)"
  by (simp add: execute_def add_program_def new_runtime_def opFuncDecl_def)

lemma range_0_3:
  "range_array (VNum (Fin 0)) (VNum (Fin 3)) = Ok (VArray [VNum (Fin 0), VNum (Fin 1), VNum (Fin 2)])"
  by (simp add: range_array_def js_sub_def js_add_def js_arith_def num_sub_def upt_rec)

text \<open>
  Claim C5 (a loop over the range from 0 to 3 whose body stores the loop variable
  completes with \<open>success: true\<close>, and the loop variable holds 2 at the end). The code
  does otherwise: \<open>opLoop\<close> binds the loop variable to the first item, 0, and then reads
  \<open>this.bytecode.length\<close>, where \<open>this.bytecode\<close> is \<open>undefined\<close>, so the run returns
  \<open>{success: false, pc: 0}\<close> with a \<open>TypeError\<close>, the loop variable holds 0 and
  \<open>slot\<close> is not bound.
\<close>

lemma range_1_4:
  "range_array (VNum (Fin 1)) (VNum (Fin 4)) = Ok (VArray [VNum (Fin 1), VNum (Fin 2), VNum (Fin 3)])"
  by (simp add: range_array_def js_sub_def js_add_def js_arith_def num_sub_def upt_rec)

text \<open>
  With the field \<open>bytecode\<close> of the runtime set to the program, a loop runs its body once
  for each item, in sequence: over the range from 1 to 4 the run succeeds, and the loop
  variable and \<open>slot\<close> hold 3 at the end. Over the range from 0 to 3 the first iteration
  faults, because \<open>load\<close> takes the loop variable 0 for an undefined variable.
\<close>

lemma loop_programs_with_bytecode_assigned:
  "execute 8 no_randoms loop_from_one_program (with_bytecode loop_from_one_program) =
     Finished (Success VNull)
       (with_bytecode loop_from_one_program\<lparr>running := True, pc := 4,
          memory := [''i'' \<mapsto> VNum (Fin 3), ''slot'' \<mapsto> VNum (Fin 3)]\<rparr>)
   \<and> execute 8 no_randoms loop_program (with_bytecode loop_program) =
     Finished (Failure (Error ''Undefined variable: i'') 0)
       (with_bytecode loop_program\<lparr>running := True, memory := [''i'' \<mapsto> VNum (Fin 0)]\<rparr>)"
  by (simp add: execute_def with_bytecode_def new_runtime_def loop_from_one_program_def
      loop_program_def range_1_4 range_0_3 skip_block.simps opMemLoad_def opMemStore_def
      map_get_def js_or_def pop_def push_def eval_nat_numeral Let_def)

theorem loop_program_faults_at_loop:
  "execute (Suc n) randoms loop_program new_runtime =
     Finished (Failure TypeError 0) (new_runtime\<lparr>running := True, memory := [''i'' \<mapsto> VNum (Fin 0)]\<rparr>)"
  by (simp add: execute_def loop_program_def new_runtime_def range_0_3)

subsection \<open>Loading a variable\<close>

text \<open>
  Claim C6 (\<open>load\<close> pushes the value bound in memory, whatever it is, and faults only
  for a name bound neither in memory nor in the globals). The code does otherwise for a
  name bound to 0: \<open>memory.get(x) || globals.get(x)\<close> passes over the 0, and \<open>load\<close>
  throws \<open>Undefined variable: x\<close>.
\<close>

theorem load_of_zero_faults:
  "memory zero_state ''x'' = Some (VNum (Fin 0))
   \<and> opMemLoad ''x'' zero_state = Thrown (Error ''Undefined variable: x'') zero_state"
  by (simp add: opMemLoad_def zero_state_def new_runtime_def map_get_def js_or_def)

text \<open>
  What \<open>load\<close> does in general: it pushes the value bound in memory when that value is
  truthy, the value bound in the globals otherwise, and it throws when the value it
  arrives at is \<open>undefined\<close>.
\<close>

lemma opMemLoad_cases:
  "opMemLoad x s =
     (if truthy (map_get (memory s) x) then Done (push (map_get (memory s) x) s)
      else if map_get (globals s) x = VUndefined then Thrown (Error (''Undefined variable: '' @ x)) s
      else Done (push (map_get (globals s) x) s))"
proof -
  have "v \<noteq> VUndefined" if "truthy v" for v
    using that by auto
  then show ?thesis
    by (auto simp add: opMemLoad_def js_or_def Let_def)
qed

subsection \<open>Division\<close>

text \<open>
  Claim C7 (\<open>div\<close> on two numbers faults exactly for a right operand 0, never pushes
  Infinity or NaN, and pushes the left operand divided by the right when the right is not
  0) fails on the program \<open>push 2 ** 1023; push 0.5; div\<close>: both operands are finite
  doubles, the right one is not 0, their quotient \<open>2 ^ 1024\<close> is beyond the doubles, and
  \<open>div\<close> pushes Infinity; the run returns \<open>{success: true, result: Infinity}\<close>.
\<close>

theorem div_of_finite_numbers_pushes_infinity:
  "round_double huge = Fin huge
   \<and> round_double (1 / 2) = Fin (1 / 2)
   \<and> huge / (1 / 2) = 2 ^ 1024
   \<and> opDiv (new_runtime\<lparr>stack := [VNum (Fin (1 / 2)), VNum (Fin huge)]\<rparr>) =
       Done (new_runtime\<lparr>stack := [VNum PInf]\<rparr>)
   \<and> execute 3 no_randoms overflow_div_program new_runtime =
       Finished (Success (VNum PInf)) (new_runtime\<lparr>stack := [VNum PInf], pc := 3, running := True\<rparr>)"
proof -
  have "huge / (1 / 2) = 2 ^ 1024"
    unfolding huge_def by simp
  moreover have "opDiv (new_runtime\<lparr>stack := [VNum (Fin (1 / 2)), VNum (Fin huge)]\<rparr>) =
       Done (new_runtime\<lparr>stack := [VNum PInf]\<rparr>)"
    by (simp add: opDiv_def pop_def push_def js_div_def js_arith_def div_huge_half
        del: num_div.simps)
  moreover have "execute 3 no_randoms overflow_div_program new_runtime =
       Finished (Success (VNum PInf)) (new_runtime\<lparr>stack := [VNum PInf], pc := 3, running := True\<rparr>)"
    by (simp add: execute_def new_runtime_def overflow_div_program_def arith_defs div_huge_half
        eval_nat_numeral Let_def del: num_div.simps)
  ultimately show ?thesis
    using round_double_huge round_double_half by (simp only: simp_thms)
qed

text \<open>
  A second run on which \<open>div\<close> pushes a value that is not a finite number: in
  \<open>push 1; add; push 2; div\<close> the \<open>add\<close> leaves NaN, and \<open>div\<close> pushes NaN.
\<close>

lemma div_pushes_nan:
  "execute 3 no_randoms nan_program new_runtime =
     Finished (Success (VNum (Fin 2)))
       (new_runtime\<lparr>stack := [VNum (Fin 2), VNum NaN], pc := 3, running := True\<rparr>)
   \<and> execute 4 no_randoms nan_div_program new_runtime =
     Finished (Success (VNum NaN)) (new_runtime\<lparr>stack := [VNum NaN], pc := 4, running := True\<rparr>)"
  by (simp add: execute_def new_runtime_def nan_program_def nan_div_program_def arith_defs
      eval_nat_numeral Let_def)

text \<open>
  Claim C7 as amended: for every execution of \<open>div\<close> whose two popped operands are
  numbers, the instruction faults with the error \<open>Division by zero\<close> (and the run returns
  \<open>{success: false, error, pc}\<close> with the \<open>pc\<close> of the \<open>div\<close>) if and only if the right
  operand is 0. When the right operand is not 0, \<open>div\<close> pushes the quotient of IEEE
  arithmetic: for two finite operands, the real quotient rounded to the nearest double,
  which is never NaN, which is the real quotient itself when that is a double, and which
  is Infinity or -Infinity when the real quotient is \<open>2 ^ 1024\<close> or more in magnitude; NaN
  when an operand is NaN or both are infinite; 0 when a finite operand is divided by an
  infinite one; and an infinity, of the sign of the quotient, when an infinite operand is
  divided by a finite one that is not 0.
\<close>

theorem div_faults_iff_zero_divisor:
  assumes "stack s = VNum b # VNum a # rest"
  shows "((\<exists>s'. opDiv s = Thrown (Error ''Division by zero'') s') \<longleftrightarrow> b = Fin 0)
    \<and> (b = Fin 0 \<longrightarrow> opDiv s = Thrown (Error ''Division by zero'') (s\<lparr>stack := rest\<rparr>))
    \<and> (b = Fin 0 \<and> 0 \<le> pc s \<and> nat (pc s) < length bytecode \<and> bytecode ! nat (pc s) = DIV
         \<and> running s \<longrightarrow>
        execute_loop (Suc n) randoms bytecode s =
          Finished (Failure (Error ''Division by zero'') (pc s)) (s\<lparr>stack := rest\<rparr>))
    \<and> (b \<noteq> Fin 0 \<longrightarrow> opDiv s = Done (s\<lparr>stack := VNum (num_div a b) # rest\<rparr>))
    \<and> (\<forall>x y. a = Fin x \<and> b = Fin y \<and> y \<noteq> 0 \<longrightarrow>
          opDiv s = Done (s\<lparr>stack := VNum (round_double (x / y)) # rest\<rparr>)
          \<and> round_double (x / y) \<noteq> NaN
          \<and> (round_double (x / y) = Fin (x / y) \<longrightarrow>
               opDiv s = Done (s\<lparr>stack := VNum (Fin (x / y)) # rest\<rparr>))
          \<and> (2 ^ 1024 \<le> \<bar>x / y\<bar> \<longrightarrow>
               opDiv s = Done (s\<lparr>stack := VNum (if x / y < 0 then NInf else PInf) # rest\<rparr>)))
    \<and> (b \<noteq> Fin 0 \<and> (a = NaN \<or> b = NaN \<or> (a \<in> {PInf, NInf} \<and> b \<in> {PInf, NInf})) \<longrightarrow>
          opDiv s = Done (s\<lparr>stack := VNum NaN # rest\<rparr>))
    \<and> (\<forall>x. a = Fin x \<and> b \<in> {PInf, NInf} \<longrightarrow> opDiv s = Done (s\<lparr>stack := VNum (Fin 0) # rest\<rparr>))
    \<and> (\<forall>y. a \<in> {PInf, NInf} \<and> b = Fin y \<and> y \<noteq> 0 \<longrightarrow>
          opDiv s = Done (s\<lparr>stack := VNum (if (a = PInf) = (0 < y) then PInf else NInf) # rest\<rparr>))"
proof -
  have pushes: "opDiv s = Done (s\<lparr>stack := VNum (num_div a b) # rest\<rparr>)" if "b \<noteq> Fin 0"
    using assms that by (simp add: opDiv_def pop_def push_def js_div_def js_arith_def)
  have thrown: "opDiv s = Thrown (Error ''Division by zero'') (s\<lparr>stack := rest\<rparr>)" if "b = Fin 0"
    using assms that by (simp add: opDiv_def pop_def push_def)
  have c1: "(\<exists>s'. opDiv s = Thrown (Error ''Division by zero'') s') \<longleftrightarrow> b = Fin 0"
    using pushes thrown by (cases "b = Fin 0") simp_all
  have c2: "b = Fin 0 \<longrightarrow> opDiv s = Thrown (Error ''Division by zero'') (s\<lparr>stack := rest\<rparr>)"
    using thrown by simp
  have c3: "b = Fin 0 \<and> 0 \<le> pc s \<and> nat (pc s) < length bytecode \<and> bytecode ! nat (pc s) = DIV
         \<and> running s \<longrightarrow>
        execute_loop (Suc n) randoms bytecode s =
          Finished (Failure (Error ''Division by zero'') (pc s)) (s\<lparr>stack := rest\<rparr>)"
    using thrown by auto
  have c4: "b \<noteq> Fin 0 \<longrightarrow> opDiv s = Done (s\<lparr>stack := VNum (num_div a b) # rest\<rparr>)"
    using pushes by simp
  have c5: "\<forall>x y. a = Fin x \<and> b = Fin y \<and> y \<noteq> 0 \<longrightarrow>
          opDiv s = Done (s\<lparr>stack := VNum (round_double (x / y)) # rest\<rparr>)
          \<and> round_double (x / y) \<noteq> NaN
          \<and> (round_double (x / y) = Fin (x / y) \<longrightarrow>
               opDiv s = Done (s\<lparr>stack := VNum (Fin (x / y)) # rest\<rparr>))
          \<and> (2 ^ 1024 \<le> \<bar>x / y\<bar> \<longrightarrow>
               opDiv s = Done (s\<lparr>stack := VNum (if x / y < 0 then NInf else PInf) # rest\<rparr>))"
  proof (intro allI impI, elim conjE)
    fix x y
    assume a: "a = Fin x" and b: "b = Fin y" and y: "y \<noteq> 0"
    then have fin: "opDiv s = Done (s\<lparr>stack := VNum (round_double (x / y)) # rest\<rparr>)"
      using pushes by simp
    have over: "opDiv s = Done (s\<lparr>stack := VNum (if x / y < 0 then NInf else PInf) # rest\<rparr>)"
      if "2 ^ 1024 \<le> \<bar>x / y\<bar>"
    proof -
      from that have "2 ^ max_exponent \<le> \<bar>x / y\<bar>" by (simp only: max_exponent_def)
      then have "round_double (x / y) = (if x / y < 0 then NInf else PInf)"
        by (rule round_double_overflow)
      with fin show ?thesis by (simp only:)
    qed
    have exact: "opDiv s = Done (s\<lparr>stack := VNum (Fin (x / y)) # rest\<rparr>)"
      if "round_double (x / y) = Fin (x / y)"
      using fin that by (simp only:)
    from fin over exact round_double_not_nan [of "x / y"]
    show "opDiv s = Done (s\<lparr>stack := VNum (round_double (x / y)) # rest\<rparr>)
          \<and> round_double (x / y) \<noteq> NaN
          \<and> (round_double (x / y) = Fin (x / y) \<longrightarrow>
               opDiv s = Done (s\<lparr>stack := VNum (Fin (x / y)) # rest\<rparr>))
          \<and> (2 ^ 1024 \<le> \<bar>x / y\<bar> \<longrightarrow>
               opDiv s = Done (s\<lparr>stack := VNum (if x / y < 0 then NInf else PInf) # rest\<rparr>))"
      by (intro conjI impI)
  qed
  have c6: "b \<noteq> Fin 0 \<and> (a = NaN \<or> b = NaN \<or> (a \<in> {PInf, NInf} \<and> b \<in> {PInf, NInf})) \<longrightarrow>
          opDiv s = Done (s\<lparr>stack := VNum NaN # rest\<rparr>)"
  proof (intro impI, elim conjE)
    assume "b \<noteq> Fin 0"
      and h: "a = NaN \<or> b = NaN \<or> (a \<in> {PInf, NInf} \<and> b \<in> {PInf, NInf})"
    moreover from h have "num_div a b = NaN" by (cases a; cases b) auto
    ultimately show "opDiv s = Done (s\<lparr>stack := VNum NaN # rest\<rparr>)"
      using pushes by simp
  qed
  have c7: "\<forall>x. a = Fin x \<and> b \<in> {PInf, NInf} \<longrightarrow> opDiv s = Done (s\<lparr>stack := VNum (Fin 0) # rest\<rparr>)"
  proof (intro allI impI, elim conjE)
    fix x
    assume h: "a = Fin x" "b \<in> {PInf, NInf}"
    then have "b \<noteq> Fin 0" and "num_div a b = Fin 0" by auto
    with pushes show "opDiv s = Done (s\<lparr>stack := VNum (Fin 0) # rest\<rparr>)" by simp
  qed
  have c8: "\<forall>y. a \<in> {PInf, NInf} \<and> b = Fin y \<and> y \<noteq> 0 \<longrightarrow>
          opDiv s = Done (s\<lparr>stack := VNum (if (a = PInf) = (0 < y) then PInf else NInf) # rest\<rparr>)"
  proof (intro allI impI, elim conjE)
    fix y
    assume h: "a \<in> {PInf, NInf}" "b = Fin y" "y \<noteq> 0"
    then have "b \<noteq> Fin 0"
      and "num_div a b = (if (a = PInf) = (0 < y) then PInf else NInf)" by auto
    with pushes
    show "opDiv s = Done (s\<lparr>stack := VNum (if (a = PInf) = (0 < y) then PInf else NInf) # rest\<rparr>)"
      by simp
  qed
  show ?thesis
    by (intro conjI; fact)
qed


text \<open>
  Claim C7 as amended, at the stacks 1, 0 (a fault), 6, 2 (the quotient 3) and
  \<open>2 ** 1023\<close>, 0.5 (Infinity).
\<close>

theorem div_faults_iff_zero_divisor_witness:
  "stack (new_runtime\<lparr>stack := [VNum (Fin 0), VNum (Fin 1)]\<rparr>) = VNum (Fin 0) # VNum (Fin 1) # []
   \<and> opDiv (new_runtime\<lparr>stack := [VNum (Fin 0), VNum (Fin 1)]\<rparr>) =
       Thrown (Error ''Division by zero'') (new_runtime\<lparr>stack := []\<rparr>)
   \<and> stack (new_runtime\<lparr>stack := [VNum (Fin 2), VNum (Fin 6)]\<rparr>) = VNum (Fin 2) # VNum (Fin 6) # []
   \<and> opDiv (new_runtime\<lparr>stack := [VNum (Fin 2), VNum (Fin 6)]\<rparr>) =
       Done (new_runtime\<lparr>stack := [VNum (Fin 3)]\<rparr>)
   \<and> stack (new_runtime\<lparr>stack := [VNum (Fin (1 / 2)), VNum (Fin huge)]\<rparr>) =
       VNum (Fin (1 / 2)) # VNum (Fin huge) # []
   \<and> 2 ^ 1024 \<le> \<bar>huge / (1 / 2)\<bar>
   \<and> opDiv (new_runtime\<lparr>stack := [VNum (Fin (1 / 2)), VNum (Fin huge)]\<rparr>) =
       Done (new_runtime\<lparr>stack := [VNum PInf]\<rparr>)"
proof -
  have h0: "stack (new_runtime\<lparr>stack := [VNum (Fin 0), VNum (Fin 1)]\<rparr>) = VNum (Fin 0) # VNum (Fin 1) # []"
    by simp
  have h1: "stack (new_runtime\<lparr>stack := [VNum (Fin 2), VNum (Fin 6)]\<rparr>) = VNum (Fin 2) # VNum (Fin 6) # []"
    by simp
  have h2: "stack (new_runtime\<lparr>stack := [VNum (Fin (1 / 2)), VNum (Fin huge)]\<rparr>) =
       VNum (Fin (1 / 2)) # VNum (Fin huge) # []"
    by simp
  have big: "2 ^ 1024 \<le> \<bar>huge / (1 / 2)\<bar>"
    unfolding huge_def by simp
  have pos: "\<not> huge / (1 / 2) < 0"
    unfolding huge_def by simp
  from div_faults_iff_zero_divisor [OF h0]
  have a: "opDiv (new_runtime\<lparr>stack := [VNum (Fin 0), VNum (Fin 1)]\<rparr>) =
       Thrown (Error ''Division by zero'') (new_runtime\<lparr>stack := []\<rparr>)"
    by simp
  from div_faults_iff_zero_divisor [OF h1]
  have b: "opDiv (new_runtime\<lparr>stack := [VNum (Fin 2), VNum (Fin 6)]\<rparr>) =
       Done (new_runtime\<lparr>stack := [VNum (Fin 3)]\<rparr>)"
    by simp
  have ops: "Fin huge = Fin huge \<and> Fin (1 / 2) = Fin (1 / 2) \<and> (1 / 2 :: real) \<noteq> 0"
    by simp
  note over = div_faults_iff_zero_divisor [OF h2, THEN conjunct2, THEN conjunct2, THEN conjunct2,
      THEN conjunct2, THEN conjunct1, THEN spec, THEN spec, THEN mp, THEN conjunct2,
      THEN conjunct2, THEN conjunct2, THEN mp]
  from over [OF ops big] pos
  have c: "opDiv (new_runtime\<lparr>stack := [VNum (Fin (1 / 2)), VNum (Fin huge)]\<rparr>) =
       Done (new_runtime\<lparr>stack := [VNum PInf]\<rparr>)"
    by simp
  from a b c h0 h1 h2 big show ?thesis by (simp only: simp_thms)
qed

subsection \<open>The Hadamard gate on qubit 0\<close>

lemma bit_of_0: "bit_of 0 = 1"
  by (simp add: bit_of_def)

lemma word_and_one_even: "((word_of_nat i :: 32 word) AND 1 = 0) = even i"
  by (simp add: and_one_eq mod_2_eq_odd)

lemma sint_small: "n < 2147483648 \<Longrightarrow> sint (word_of_nat n :: 32 word) = int n"
  by (simp add: signed_of_nat signed_take_bit_int_eq_self)

lemma sint_or_one:
  assumes "even i" and "i < 2147483647"
  shows "sint ((word_of_nat i :: 32 word) OR 1) = int i + 1"
proof -
  have "(word_of_nat i :: 32 word) OR 1 = word_of_nat (Suc i)"
    using assms(1) by (simp add: or_one_eq)
  then show ?thesis
    using sint_small [of "Suc i"] assms(2) by simp
qed

text \<open>
  The loop for target 0, over any list of indices: an even index of the list gets the
  sum, the odd index after it the difference, and every other entry is left as it was.
\<close>

lemma hadamard_loop_0:
  assumes "even (length amps)" and "length amps \<le> 2147483648"
    and "\<forall>i \<in> set is. i < length amps" and "length new = length amps"
  shows "\<exists>new'. hadamard_loop 0 amps is new = Some new' \<and> length new' = length amps \<and>
           (\<forall>k < length amps. new' ! k =
              (if even k \<and> k \<in> set is then h_plus (amps ! k) (amps ! Suc k)
               else if odd k \<and> k - 1 \<in> set is then h_minus (amps ! (k - 1)) (amps ! k)
               else new ! k))"
  using assms(3,4)
proof (induction "is" arbitrary: new)
  case Nil
  then show ?case by simp
next
  case (Cons i "is")
  have i: "i < length amps" using Cons.prems by simp
  have rest: "\<forall>i \<in> set is. i < length amps" using Cons.prems by simp
  show ?case
  proof (cases "even i")
    case True
    with i assms(1) have si: "Suc i < length amps"
      by (metis Suc_lessI even_Suc)
    with assms(2) have lt: "i < 2147483647" by simp
    let ?new1 = "new[i := h_plus (amps ! i) (amps ! Suc i), Suc i := h_minus (amps ! i) (amps ! Suc i)]"
    have len1: "length ?new1 = length amps" using Cons.prems by simp
    from Cons.IH [OF rest len1] obtain new' where
      run: "hadamard_loop 0 amps is ?new1 = Some new'" and len: "length new' = length amps"
      and nth: "\<forall>k < length amps. new' ! k =
              (if even k \<and> k \<in> set is then h_plus (amps ! k) (amps ! Suc k)
               else if odd k \<and> k - 1 \<in> set is then h_minus (amps ! (k - 1)) (amps ! k)
               else ?new1 ! k)"
      by blast
    have step: "hadamard_loop 0 amps (i # is) new = Some new'"
      using True si lt run
      by (simp add: bit_of_0 word_and_one_even sint_or_one h_plus_def h_minus_def nat_add_distrib)
    have "new' ! k =
              (if even k \<and> k \<in> set (i # is) then h_plus (amps ! k) (amps ! Suc k)
               else if odd k \<and> k - 1 \<in> set (i # is) then h_minus (amps ! (k - 1)) (amps ! k)
               else new ! k)" if k: "k < length amps" for k
      using nth [rule_format, OF k] True k si Cons.prems(2)
      by (auto simp add: nth_list_update elim: oddE)
    with step len show ?thesis by blast
  next
    case False
    from Cons.IH [OF rest Cons.prems(2)] obtain new' where
      run: "hadamard_loop 0 amps is new = Some new'" and len: "length new' = length amps"
      and nth: "\<forall>k < length amps. new' ! k =
              (if even k \<and> k \<in> set is then h_plus (amps ! k) (amps ! Suc k)
               else if odd k \<and> k - 1 \<in> set is then h_minus (amps ! (k - 1)) (amps ! k)
               else new ! k)"
      by blast
    have step: "hadamard_loop 0 amps (i # is) new = Some new'"
      using False run by (simp add: bit_of_0 word_and_one_even)
    have "new' ! k =
              (if even k \<and> k \<in> set (i # is) then h_plus (amps ! k) (amps ! Suc k)
               else if odd k \<and> k - 1 \<in> set (i # is) then h_minus (amps ! (k - 1)) (amps ! k)
               else new ! k)" if k: "k < length amps" for k
      using nth [rule_format, OF k] False
      by (auto elim: oddE)
    with step len show ?thesis by blast
  qed
qed

lemma hadamard_0:
  assumes "even (length amps)" and "length amps \<le> 2147483648"
  shows "hadamard 0 amps = Some (h_all amps)"
proof -
  have "\<forall>i \<in> set [0..<length amps]. i < length amps" by simp
  from hadamard_loop_0 [OF assms this refl] obtain new' where
    run: "hadamard_loop 0 amps [0..<length amps] amps = Some new'" and len: "length new' = length amps"
    and nth: "\<forall>k < length amps. new' ! k =
              (if even k \<and> k \<in> set [0..<length amps] then h_plus (amps ! k) (amps ! Suc k)
               else if odd k \<and> k - 1 \<in> set [0..<length amps] then h_minus (amps ! (k - 1)) (amps ! k)
               else amps ! k)"
    by blast
  have "new' = h_all amps"
  proof (rule nth_equalityI)
    show "length new' = length (h_all amps)" using len by (simp add: h_all_def)
  next
    fix k assume "k < length new'"
    then have k: "k < length amps" using len by simp
    then show "new' ! k = h_all amps ! k"
      using nth [rule_format, OF k] by (auto simp add: h_all_def)
  qed
  with run show ?thesis by (simp add: hadamard_def)
qed

lemma h_plus_minus: "h_plus (h_plus a b) (h_minus a b) = a"
proof -
  have "(x + y) / sqrt 2 + (x - y) / sqrt 2 = x * sqrt 2" for x y :: real
    by (simp add: field_simps)
  then show ?thesis by (simp add: h_plus_def h_minus_def)
qed

lemma h_minus_plus: "h_minus (h_plus a b) (h_minus a b) = b"
proof -
  have "(x + y) / sqrt 2 - (x - y) / sqrt 2 = y * sqrt 2" for x y :: real
    by (simp add: field_simps)
  then show ?thesis by (simp add: h_plus_def h_minus_def)
qed

lemma h_all_involution:
  assumes "even (length amps)"
  shows "h_all (h_all amps) = amps"
proof (rule nth_equalityI)
  show "length (h_all (h_all amps)) = length amps" by (simp add: h_all_def)
next
  fix k assume "k < length (h_all (h_all amps))"
  then have k: "k < length amps" by (simp add: h_all_def)
  show "h_all (h_all amps) ! k = amps ! k"
  proof (cases "even k")
    case True
    with k assms have sk: "Suc k < length amps" by (metis Suc_lessI even_Suc)
    with k True show ?thesis by (simp add: h_all_def h_plus_minus)
  next
    case False
    then obtain m where m: "k = Suc m" "even m" by (cases k) auto
    with k have "m < length amps" by simp
    with k m show ?thesis by (simp add: h_all_def h_minus_plus)
  qed
qed

text \<open>
  On every amplitude vector of even length up to 2^31, the gate on qubit 0 applied twice
  gives the vector back.
\<close>

lemma hadamard_twice:
  assumes "even (length amps)" and "length amps \<le> 2147483648"
  shows "hadamard 0 amps = Some (h_all amps) \<and> hadamard 0 (h_all amps) = Some amps"
proof -
  have "length (h_all amps) = length amps" by (simp add: h_all_def)
  with assms have "hadamard 0 (h_all amps) = Some (h_all (h_all amps))"
    by (simp add: hadamard_0)
  with assms show ?thesis by (simp add: hadamard_0 h_all_involution)
qed

lemma init_amplitudes:
  assumes "n \<le> 31"
  shows "initQuantumAmplitudes (VNum (Fin (real n))) = Ok (one_hot (2 ^ n) 0)"
proof -
  have "(2::nat) ^ n \<le> 2 ^ 31" using assms by (rule power_increasing) simp
  then have "(2::nat) ^ n \<le> 2147483648" by simp
  then have "real ((2::nat) ^ n) \<le> 4294967295" by linarith
  then have b: "(2::real) ^ n \<le> 4294967295" by simp
  have "math_pow2 (Fin (real n)) = Fin (2 ^ n)"
    using assms by (simp only: math_pow2_nat) (simp add: max_exponent_def)
  then have len: "array_length (math_pow2 (Fin (real n))) = Some (2 ^ n)"
    using b by (simp only: array_length.simps) simp
  have "(replicate (2 ^ n) amp_zero)[0 := amp_one] = one_hot (2 ^ n) 0"
    by (rule nth_equalityI) (auto simp add: one_hot_def nth_list_update)
  with len show ?thesis by (simp add: initQuantumAmplitudes_def)
qed

text \<open>From 32 qubits on, the array of amplitudes cannot be created.\<close>

lemma init_amplitudes_too_many:
  assumes "32 \<le> n"
  shows "initQuantumAmplitudes (VNum (Fin (real n))) = Err RangeError"
proof -
  have "(2::real) ^ 32 \<le> 2 ^ n" using assms by (rule power_increasing) simp
  then have "\<not> (2::real) ^ n \<le> 4294967295" by simp
  then have "array_length (math_pow2 (Fin (real n))) = None"
    by (simp only: math_pow2_nat) simp
  then show ?thesis by (simp add: initQuantumAmplitudes_def del: math_pow2.simps)
qed

text \<open>
  Claim C8: on a quantum state that \<open>init\<close> has just created for \<open>n\<close> qubits (between 1
  and 31; the amplitude vector is one-hot at index 0 and has length 2^n), the Hadamard
  gate on qubit 0, applied twice, gives back the runtime as \<open>init\<close> left it, with the
  same amplitude vector, exactly over the reals.
\<close>

theorem hadamard_twice_restores_fresh_state:
  assumes "1 \<le> n" and "n \<le> 31"
  shows "opQuantumInit [VNum (Fin (real n))] s =
           Done (s\<lparr>stack := VQState (allocated s) # stack s,
                   quantumState := Some \<lparr> qid = allocated s, numQubits = VNum (Fin (real n)),
                                           amplitudes = one_hot (2 ^ n) 0, entangled = [] \<rparr>,
                   allocated := Suc (allocated s)\<rparr>)
       \<and> and_then (and_then (opQuantumInit [VNum (Fin (real n))] s) (opQuantumGate ''HADAMARD'' 0))
                   (opQuantumGate ''HADAMARD'' 0)
           = opQuantumInit [VNum (Fin (real n))] s"
proof -
  have len: "length (one_hot (2 ^ n) 0) = 2 ^ n" by (simp add: one_hot_def)
  have ev: "even (length (one_hot (2 ^ n) 0))" using assms(1) len by simp
  have "(2::nat) ^ n \<le> 2 ^ 31" using assms(2) by (rule power_increasing) simp
  then have le: "length (one_hot (2 ^ n) 0) \<le> 2147483648" using len by simp
  note twice = hadamard_twice [OF ev le]
  have init: "opQuantumInit [VNum (Fin (real n))] s =
           Done (s\<lparr>stack := VQState (allocated s) # stack s,
                   quantumState := Some \<lparr> qid = allocated s, numQubits = VNum (Fin (real n)),
                                           amplitudes = one_hot (2 ^ n) 0, entangled = [] \<rparr>,
                   allocated := Suc (allocated s)\<rparr>)"
    using assms by (simp add: opQuantumInit_def js_or_def init_amplitudes push_def)
  show ?thesis
    unfolding init using twice
    by (simp add: opQuantumGate_def applyHadamard_def)
qed

text \<open>Claim C8, at one qubit on the new runtime.\<close>

theorem hadamard_twice_restores_fresh_state_witness:
  "(1::nat) \<le> 1 \<and> (1::nat) \<le> 31
   \<and> and_then (and_then (opQuantumInit [VNum (Fin (real (1::nat)))] new_runtime)
                 (opQuantumGate ''HADAMARD'' 0))
        (opQuantumGate ''HADAMARD'' 0)
       = Done (new_runtime\<lparr>stack := [VQState 0],
                 quantumState := Some \<lparr> qid = 0, numQubits = VNum (Fin 1),
                                         amplitudes = [amp_one, amp_zero], entangled = [] \<rparr>,
                 allocated := 1\<rparr>)"
proof -
  have h1: "(1::nat) \<le> 1" and h2: "(1::nat) \<le> 31" by simp_all
  have oh: "one_hot 2 0 = [amp_one, amp_zero]"
    by (simp add: one_hot_def upt_rec)
  note fresh = hadamard_twice_restores_fresh_state [OF h1 h2, of new_runtime]
  note init = fresh [THEN conjunct1] and twice = fresh [THEN conjunct2]
  show ?thesis
    by (subst twice, subst init) (simp add: new_runtime_def oh)
qed

subsection \<open>Measuring a collapsed state\<close>

lemma sample_one_hot:
  assumes "0 \<le> r" and "r < 1"
  shows "m \<le> k \<Longrightarrow> k < n \<Longrightarrow> sample r (map (\<lambda>i. if i = k then 1 else 0) [m..<n]) 0 m = k"
proof (induction "k - m" arbitrary: m)
  case 0
  then have "m = k" by simp
  with 0 assms show ?case by (simp add: upt_conv_Cons)
next
  case (Suc d)
  then have "m < k" by simp
  with Suc.prems have "[m..<n] = m # [Suc m..<n]" by (simp add: upt_conv_Cons)
  moreover have "sample r (map (\<lambda>i. if i = k then 1 else 0) [Suc m..<n]) 0 (Suc m) = k"
    using Suc by simp
  ultimately show ?case using \<open>m < k\<close> assms by simp
qed

text \<open>
  Claim C9: when the amplitude vector is one-hot at index \<open>k\<close>, \<open>measure\<close> pushes \<open>k\<close>
  for every random draw in [0, 1), and changes nothing else: the amplitude vector is
  still one-hot at \<open>k\<close>.
\<close>

theorem measure_one_hot_returns_index:
  assumes "quantumState s = Some q" and "amplitudes q = one_hot n k" and "k < n"
    and "0 \<le> random" and "random < 1"
  shows "opQuantumMeasure random s = Done (s\<lparr>stack := VNum (Fin (real k)) # stack s\<rparr>)
    \<and> collapse k (amplitudes q) = one_hot n k"
proof -
  have probs: "map (\<lambda>a. amp_real a * amp_real a + amp_imag a * amp_imag a) (one_hot n k)
      = map (\<lambda>i. if i = k then 1 else 0) [0..<n]"
    by (simp add: one_hot_def amp_one_def amp_zero_def)
  have res: "sample random (map (\<lambda>i. if i = k then 1 else 0) [0..<n]) 0 0 = k"
    using sample_one_hot [OF assms(4,5), of 0 k n] assms(3) by simp
  have col: "collapse k (one_hot n k) = one_hot n k"
    by (simp add: collapse_def one_hot_def)
  have "q\<lparr>amplitudes := one_hot n k\<rparr> = q" using assms(2) by simp
  then show ?thesis
    using assms(1,2) by (simp add: opQuantumMeasure_def probs res col push_def)
qed

text \<open>
  Claim C9, at the state of two qubits collapsed to index 2, with the random draw 1/2:
  \<open>measure\<close> pushes 2.
\<close>

theorem measure_one_hot_returns_index_witness:
  "quantumState (new_runtime\<lparr>quantumState := Some \<lparr> qid = 0, numQubits = VNum (Fin 2),
        amplitudes = one_hot 4 2, entangled = [] \<rparr>\<rparr>)
     = Some \<lparr> qid = 0, numQubits = VNum (Fin 2), amplitudes = one_hot 4 2, entangled = [] \<rparr>
   \<and> (2::nat) < 4 \<and> (0::real) \<le> 1 / 2 \<and> (1::real) / 2 < 1
   \<and> opQuantumMeasure (1 / 2) (new_runtime\<lparr>quantumState := Some \<lparr> qid = 0, numQubits = VNum (Fin 2),
        amplitudes = one_hot 4 2, entangled = [] \<rparr>\<rparr>)
     = Done (new_runtime\<lparr>quantumState := Some \<lparr> qid = 0, numQubits = VNum (Fin 2),
        amplitudes = one_hot 4 2, entangled = [] \<rparr>, stack := [VNum (Fin 2)]\<rparr>)"
proof -
  let ?q = "\<lparr> qid = 0, numQubits = VNum (Fin 2), amplitudes = one_hot 4 2, entangled = [] \<rparr>"
  have h1: "quantumState (new_runtime\<lparr>quantumState := Some ?q\<rparr>) = Some ?q" by simp
  have h2: "amplitudes ?q = one_hot 4 2" by simp
  have h3: "(2::nat) < 4" by simp
  have h4: "(0::real) \<le> 1 / 2" and h5: "(1::real) / 2 < 1" by simp_all
  from measure_one_hot_returns_index [OF h1 h2 h3 h4 h5] h1 h3 h4 h5
  show ?thesis by (simp add: new_runtime_def)
qed

subsection \<open>The default number of qubits\<close>

text \<open>
  Claim C10: \<open>init\<close> with no argument, or with a first argument whose value is falsy (0
  for one), creates a state of 1 qubit: the amplitude vector has length 2, with
  \<open>{real: 1, imag: 0}\<close> at index 0 and \<open>{real: 0, imag: 0}\<close> at index 1, the new object
  is the current quantum state and a reference to it is pushed.
\<close>

theorem quantum_init_defaults_to_one_qubit:
  assumes "args = [] \<or> \<not> truthy (hd args)"
  shows "opQuantumInit args s =
     Done (s\<lparr>stack := VQState (allocated s) # stack s,
             quantumState := Some \<lparr> qid = allocated s, numQubits = VNum (Fin 1),
                                     amplitudes = [amp_one, amp_zero], entangled = [] \<rparr>,
             allocated := Suc (allocated s)\<rparr>)"
  using assms
  by (cases args)
    (auto simp add: opQuantumInit_def js_or_def initQuantumAmplitudes_def push_def numeral_2_eq_2)

text \<open>Claim C10, at \<open>init\<close> with no argument and at \<open>init\<close> with the argument 0.\<close>

theorem quantum_init_defaults_to_one_qubit_witness:
  "opQuantumInit [] new_runtime =
     Done (new_runtime\<lparr>stack := [VQState 0],
             quantumState := Some \<lparr> qid = 0, numQubits = VNum (Fin 1),
                                     amplitudes = [amp_one, amp_zero], entangled = [] \<rparr>,
             allocated := 1\<rparr>)
   \<and> \<not> truthy (hd [VNum (Fin 0)])
   \<and> opQuantumInit [VNum (Fin 0)] new_runtime = opQuantumInit [] new_runtime"
proof -
  have h0: "[] = ([] :: value list) \<or> \<not> truthy (hd [])" by simp
  have h1: "[VNum (Fin 0)] = [] \<or> \<not> truthy (hd [VNum (Fin 0)])" by simp
  from quantum_init_defaults_to_one_qubit [OF h0, of new_runtime]
    quantum_init_defaults_to_one_qubit [OF h1, of new_runtime]
  show ?thesis by (simp add: new_runtime_def)
qed

end
